theory Spec2Isabelle
  imports Complex_Main "HOL-Library.Log_Nat" "HOL-Library.Multiset"
begin

section \<open>Numbers: bignumber.js decimals and JavaScript numbers\<close>

text \<open>
  The source computes money values with the \<^verbatim>\<open>bignumber.js\<close> class and converts the profit
  percentage to a JavaScript number with \<^verbatim>\<open>toNumber()\<close>. Both kinds of value are modelled
  with their non-finite members. A finite \<^verbatim>\<open>BigNumber\<close> is a decimal; it is embedded in
  \<^typ>\<open>rat\<close>, on which \<^verbatim>\<open>plus\<close>, \<^verbatim>\<open>minus\<close> and \<^verbatim>\<open>multipliedBy\<close> are exact, as they are in the
  library. The library keeps a sign on a zero. This sign shows neither in what
  \<^verbatim>\<open>toString()\<close> prints nor in a comparison, only in the sign of the infinity that a
  division by the zero yields. The model has one zero and divides by it as by a positive
  one; where the code divides by a negative zero (a zero that is the product or the
  quotient of a zero and a negative number, or a negative quotient rounded to zero), its
  infinity has the opposite sign. The library's exponent range (\<open>10\<close> to the power
  \<open>\<plusminus>10\<^sup>9\<close>) is not modelled. A string field produced by \<^verbatim>\<open>toString()\<close> is represented by
  the number it prints.
\<close>

datatype BigNumber = BNaN | BFin rat | BPInf | BNInf

datatype jsnum = JNaN | JFin rat | JPInf | JNInf

fun negated :: "BigNumber \<Rightarrow> BigNumber" where
  "negated BNaN = BNaN"
| "negated (BFin a) = BFin (- a)"
| "negated BPInf = BNInf"
| "negated BNInf = BPInf"

fun plus_bn :: "BigNumber \<Rightarrow> BigNumber \<Rightarrow> BigNumber" where
  "plus_bn BNaN y = BNaN"
| "plus_bn x BNaN = BNaN"
| "plus_bn (BFin a) (BFin b) = BFin (a + b)"
| "plus_bn BPInf BNInf = BNaN"
| "plus_bn BNInf BPInf = BNaN"
| "plus_bn (BFin a) y = y"
| "plus_bn x y = x"

definition minus_bn :: "BigNumber \<Rightarrow> BigNumber \<Rightarrow> BigNumber" where
  "minus_bn x y = plus_bn x (negated y)"

fun multipliedBy :: "BigNumber \<Rightarrow> BigNumber \<Rightarrow> BigNumber" where
  "multipliedBy BNaN y = BNaN"
| "multipliedBy x BNaN = BNaN"
| "multipliedBy (BFin a) (BFin b) = BFin (a * b)"
| "multipliedBy (BFin a) y = (if a = 0 then BNaN else if 0 < a then y else negated y)"
| "multipliedBy x (BFin b) = (if b = 0 then BNaN else if 0 < b then x else negated x)"
| "multipliedBy BPInf y = y"
| "multipliedBy BNInf y = negated y"

text \<open>
  Division is the one inexact operation: the quotient is rounded to \<^verbatim>\<open>DECIMAL_PLACES\<close>
  (20, the library default, which the source leaves unchanged) in \<^verbatim>\<open>ROUNDING_MODE\<close> 4
  (half up: to the nearest neighbour, a tie away from zero). \<^verbatim>\<open>dividedToIntegerBy\<close> keeps
  no decimal place and rounds towards zero.
\<close>

definition round_half_up :: "nat \<Rightarrow> rat \<Rightarrow> rat" where
  "round_half_up dp q = sgn q * of_int \<lfloor>\<bar>q\<bar> * 10 ^ dp + 1 / 2\<rfloor> / 10 ^ dp"

definition round_down :: "rat \<Rightarrow> rat" where
  "round_down q = sgn q * of_int \<lfloor>\<bar>q\<bar>\<rfloor>"

fun div_bn :: "(rat \<Rightarrow> rat) \<Rightarrow> BigNumber \<Rightarrow> BigNumber \<Rightarrow> BigNumber" where
  "div_bn rnd BNaN y = BNaN"
| "div_bn rnd x BNaN = BNaN"
| "div_bn rnd (BFin a) (BFin b) =
     (if b = 0 then (if a = 0 then BNaN else if 0 < a then BPInf else BNInf)
      else BFin (rnd (a / b)))"
| "div_bn rnd (BFin a) y = BFin 0"
| "div_bn rnd x (BFin b) = (if 0 \<le> b then x else negated x)"
| "div_bn rnd x y = BNaN"

definition dividedBy :: "BigNumber \<Rightarrow> BigNumber \<Rightarrow> BigNumber" where
  "dividedBy = div_bn (round_half_up 20)"

definition dividedToIntegerBy :: "BigNumber \<Rightarrow> BigNumber \<Rightarrow> BigNumber" where
  "dividedToIntegerBy = div_bn round_down"

text \<open>
  \<^verbatim>\<open>toNumber()\<close> yields the IEEE 754 binary64 value nearest to the decimal (a tie goes to
  the even significand), an infinity beyond the largest double. \<open>floor_log2 x\<close> is the
  binary exponent of a positive \<open>x\<close>; the significand has 53 bits, and below \<open>2\<^sup>-\<^sup>1\<^sup>0\<^sup>2\<^sup>2\<close> the
  spacing stays \<open>2\<^sup>-\<^sup>1\<^sup>0\<^sup>7\<^sup>4\<close>.
\<close>

definition floor_log2 :: "rat \<Rightarrow> int" where
  "floor_log2 x = (case quotient_of x of (p, q) \<Rightarrow>
     (let e0 = bitlen p - bitlen q in if 2 powi e0 \<le> x then e0 else e0 - 1))"

definition round_even :: "rat \<Rightarrow> int" where
  "round_even r = (let f = \<lfloor>r\<rfloor>; d = r - of_int f in
     if d < 1 / 2 then f else if 1 / 2 < d then f + 1 else if even f then f else f + 1)"

definition round_double :: "rat \<Rightarrow> jsnum" where
  "round_double r = (if r = 0 then JFin 0 else
     (let a = \<bar>r\<bar>; e = floor_log2 a; q = max (e - 52) (- 1074);
          m = round_even (a / 2 powi q)
      in if 1023 < e \<or> (e = 1023 \<and> m = 2 ^ 53) then (if 0 < r then JPInf else JNInf)
         else JFin (sgn r * of_int m * 2 powi q)))"

fun toNumber :: "BigNumber \<Rightarrow> jsnum" where
  "toNumber BNaN = JNaN"
| "toNumber (BFin r) = round_double r"
| "toNumber BPInf = JPInf"
| "toNumber BNInf = JNInf"

text \<open>The JavaScript comparison \<^verbatim>\<open>a > b\<close> and subtraction \<^verbatim>\<open>a - b\<close> on numbers.\<close>

fun js_gt :: "jsnum \<Rightarrow> jsnum \<Rightarrow> bool" where
  "js_gt JNaN y = False"
| "js_gt x JNaN = False"
| "js_gt (JFin a) (JFin b) = (b < a)"
| "js_gt JPInf y = (y \<noteq> JPInf)"
| "js_gt x JNInf = (x \<noteq> JNInf)"
| "js_gt x y = False"

fun js_minus :: "jsnum \<Rightarrow> jsnum \<Rightarrow> jsnum" where
  "js_minus JNaN y = JNaN"
| "js_minus x JNaN = JNaN"
| "js_minus (JFin a) (JFin b) = round_double (a - b)"
| "js_minus JPInf JPInf = JNaN"
| "js_minus JNInf JNInf = JNaN"
| "js_minus (JFin a) JPInf = JNInf"
| "js_minus (JFin a) JNInf = JPInf"
| "js_minus x y = x"

section \<open>Property lookup on object literals\<close>

text \<open>
  The tables of the program (\<^verbatim>\<open>this.fees.gas\<close>, \<^verbatim>\<open>this.gasCosts\<close>, \<^verbatim>\<open>this.symbolInfo\<close>, the
  token tables, the price table handed to the strategy) are plain objects, and
  \<^verbatim>\<open>table[name]\<close> also finds the members that a plain object inherits from
  \<^verbatim>\<open>Object.prototype\<close>: for the name \<^verbatim>\<open>toString\<close> it yields a function, which is truthy
  and of which \<^verbatim>\<open>BigNumber\<close> makes \<^verbatim>\<open>NaN\<close>. A table is given by its own properties; a
  lookup tells an own property from an inherited member and from an absent name.
\<close>

datatype 'a js_prop = Own 'a | Inherited | Absent

definition object_prototype_names :: "string list" where
  "object_prototype_names =
     [''constructor'', ''__defineGetter__'', ''__defineSetter__'', ''hasOwnProperty'',
      ''__lookupGetter__'', ''__lookupSetter__'', ''isPrototypeOf'', ''propertyIsEnumerable'',
      ''toString'', ''valueOf'', ''__proto__'', ''toLocaleString'']"

definition js_get :: "(string \<Rightarrow> 'a option) \<Rightarrow> string \<Rightarrow> 'a js_prop" where
  "js_get table name =
     (case table name of
        Some v \<Rightarrow> Own v
      | None \<Rightarrow> if name \<in> set object_prototype_names then Inherited else Absent)"

section \<open>The spread calculators\<close>

text \<open>
  Both calculators return an object literal. The fields the two literals share form the
  base record; the service's \<^verbatim>\<open>calculateProfit\<close> adds \<^verbatim>\<open>tradeAmount\<close> and
  \<^verbatim>\<open>estimatedProfit\<close>, the strategy's \<^verbatim>\<open>calculateSpread\<close> adds the cost breakdown.
  \<^verbatim>\<open>timestamp\<close> is the reading of the wall clock (\<^verbatim>\<open>Date.now()\<close>) taken when the
  literal is built; the clock is the first argument of the models.
\<close>

record OpportunityBase =
  direction :: string
  network :: string
  baseToken :: string
  quoteToken :: string
  buyPrice :: BigNumber
  sellPrice :: BigNumber
  profitPercentage :: jsnum
  timestamp :: nat

record Opportunity = OpportunityBase +
  tradeAmount :: BigNumber
  estimatedProfit :: BigNumber

record SpreadResult = OpportunityBase +
  buyFee :: rat
  sellFee :: rat
  tradeSize :: BigNumber
  totalBuyCost :: BigNumber
  totalSellProceeds :: BigNumber
  gasCost :: BigNumber
  rawProfit :: BigNumber
  profitAfterGas :: BigNumber

text \<open>
  The \<^verbatim>\<open>options\<close> argument of \<^verbatim>\<open>calculateSpread\<close>: a property that is \<^verbatim>\<open>undefined\<close> is
  \<open>None\<close> and takes the default of the destructuring pattern. The numeric options are
  JavaScript numbers that the code hands to \<^verbatim>\<open>BigNumber\<close>, which reads a number through
  its decimal string (\<^verbatim>\<open>0.001\<close> is read as \<open>1/1000\<close>); they are given as that decimal.
  \<^verbatim>\<open>gasCost\<close>, which the strategy takes from a table and which need not be a number, is
  given as the \<^verbatim>\<open>BigNumber\<close> that \<^verbatim>\<open>new BigNumber(gasCost)\<close> builds. The argument
  \<^verbatim>\<open>options\<close> is an object and the fee rates are numbers: on \<^verbatim>\<open>null\<close> in their place the
  code raises a \<^verbatim>\<open>TypeError\<close>, a call that is outside this model.
\<close>

record SpreadOptions =
  opt_buyFee :: "rat option"
  opt_sellFee :: "rat option"
  opt_gasCost :: "BigNumber option"
  opt_baseToken :: "string option"
  opt_quoteToken :: "string option"
  opt_network :: "string option"
  opt_direction :: "string option"
  opt_tradeSize :: "rat option"

definition or_default :: "'a option \<Rightarrow> 'a \<Rightarrow> 'a" where
  "or_default v d = (case v of None \<Rightarrow> d | Some x \<Rightarrow> x)"

definition calculateSpread ::
  "nat \<Rightarrow> BigNumber \<Rightarrow> BigNumber \<Rightarrow> SpreadOptions \<Rightarrow> SpreadResult" where
  "calculateSpread now buyPrice' sellPrice' options =
    (let buyFee' = or_default (opt_buyFee options) (1 / 1000);
         sellFee' = or_default (opt_sellFee options) (1 / 1000);
         baseToken' = or_default (opt_baseToken options) ''ETH'';
         quoteToken' = or_default (opt_quoteToken options) ''USDT'';
         network' = or_default (opt_network options) ''ethereum'';
         direction' = or_default (opt_direction options) ''cexToDex'';
         tradeSize' = or_default (opt_tradeSize options) 1;
         tradeSizeBN = BFin tradeSize';
         buyAmount = tradeSizeBN;
         buyCost = multipliedBy buyPrice' buyAmount;
         buyFeeAmount = multipliedBy buyCost (BFin buyFee');
         totalBuyCost' = plus_bn buyCost buyFeeAmount;
         sellProceeds = multipliedBy sellPrice' buyAmount;
         sellFeeAmount = multipliedBy sellProceeds (BFin sellFee');
         totalSellProceeds' = minus_bn sellProceeds sellFeeAmount;
         gasCostBN = or_default (opt_gasCost options) (BFin (1 / 10));
         rawProfit' = minus_bn totalSellProceeds' totalBuyCost';
         profitAfterGas' = minus_bn rawProfit' gasCostBN;
         profitPercentage' =
           toNumber (multipliedBy (dividedBy profitAfterGas' totalBuyCost') (BFin 100))
     in \<lparr> direction = direction', network = network', baseToken = baseToken',
          quoteToken = quoteToken', buyPrice = buyPrice', sellPrice = sellPrice',
          profitPercentage = profitPercentage', timestamp = now,
          buyFee = buyFee', sellFee = sellFee', tradeSize = tradeSizeBN,
          totalBuyCost = totalBuyCost', totalSellProceeds = totalSellProceeds',
          gasCost = gasCostBN, rawProfit = rawProfit', profitAfterGas = profitAfterGas' \<rparr>)"

text \<open>
  The fee table of the service (\<^verbatim>\<open>this.fees\<close>, set in the constructor);
  \<open>fees_gas\<close> holds the own properties of \<^verbatim>\<open>this.fees.gas\<close>, none of which is falsy.
  In \<^verbatim>\<open>new BigNumber(this.fees.gas[network] || 0.1)\<close> an inherited member is truthy and
  becomes \<^verbatim>\<open>NaN\<close>.
\<close>

definition fees_binance_taker :: rat where
  "fees_binance_taker = 1 / 1000"

definition fees_uniswap_fee :: rat where
  "fees_uniswap_fee = 3 / 1000"

definition fees_gas :: "string \<Rightarrow> rat option" where
  "fees_gas n =
    (if n = ''ethereum'' then Some 20
     else if n = ''arbitrum'' then Some (3 / 10)
     else if n = ''optimism'' then Some (1 / 10)
     else if n = ''polygon'' then Some (5 / 100)
     else None)"

definition calculateProfit ::
  "nat \<Rightarrow> string \<Rightarrow> string \<Rightarrow> string \<Rightarrow> string \<Rightarrow> BigNumber \<Rightarrow> BigNumber \<Rightarrow> Opportunity" where
  "calculateProfit now direction' network' baseToken' quoteToken' buyPriceBN sellPriceBN =
    (let tradeAmount' = BFin 1;
         dexFee = (if direction' = ''dexToCex''
                   then multipliedBy tradeAmount' (BFin fees_uniswap_fee)
                   else multipliedBy (multipliedBy tradeAmount' sellPriceBN) (BFin fees_uniswap_fee));
         binanceFee = (if direction' = ''dexToCex''
                   then multipliedBy (multipliedBy tradeAmount' sellPriceBN) (BFin fees_binance_taker)
                   else multipliedBy tradeAmount' (BFin fees_binance_taker));
         gasCost' = (case js_get fees_gas network' of
                       Own g \<Rightarrow> BFin g | Inherited \<Rightarrow> BNaN | Absent \<Rightarrow> BFin (1 / 10));
         costToBuy = (if direction' = ''dexToCex''
                   then plus_bn (multipliedBy tradeAmount' buyPriceBN) dexFee
                   else plus_bn (multipliedBy tradeAmount' buyPriceBN) binanceFee);
         revenueFromSell = (if direction' = ''dexToCex''
                   then minus_bn (multipliedBy tradeAmount' sellPriceBN) binanceFee
                   else minus_bn (multipliedBy tradeAmount' sellPriceBN) dexFee);
         profit = minus_bn (minus_bn revenueFromSell costToBuy) gasCost';
         profitPercentage' = toNumber (multipliedBy (dividedBy profit costToBuy) (BFin 100))
     in \<lparr> direction = direction', network = network', baseToken = baseToken',
          quoteToken = quoteToken', buyPrice = buyPriceBN, sellPrice = sellPriceBN,
          profitPercentage = profitPercentage', timestamp = now,
          tradeAmount = tradeAmount', estimatedProfit = profit \<rparr>)"

text \<open>An \<^verbatim>\<open>options\<close> object with no property set: every default applies.\<close>

definition no_options :: SpreadOptions where
  "no_options = \<lparr> opt_buyFee = None, opt_sellFee = None, opt_gasCost = None,
     opt_baseToken = None, opt_quoteToken = None, opt_network = None,
     opt_direction = None, opt_tradeSize = None \<rparr>"

text \<open>
  The specification's formula for the profit, in exact rational arithmetic, written from
  its words: the buy fee is \<open>buyCost \<times> buyFeeRate\<close>, the sell fee is
  \<open>sellProceeds \<times> sellFeeRate\<close>.
\<close>

definition spec_totalBuyCost :: "rat \<Rightarrow> rat \<Rightarrow> rat \<Rightarrow> rat" where
  "spec_totalBuyCost buyPrice' buyFeeRate tradeSize' = buyPrice' * tradeSize' * (1 + buyFeeRate)"

definition spec_profitAfterGas :: "rat \<Rightarrow> rat \<Rightarrow> rat \<Rightarrow> rat \<Rightarrow> rat \<Rightarrow> rat \<Rightarrow> rat" where
  "spec_profitAfterGas buyPrice' sellPrice' buyFeeRate sellFeeRate gasCost' tradeSize' =
     sellPrice' * tradeSize' * (1 - sellFeeRate)
       - spec_totalBuyCost buyPrice' buyFeeRate tradeSize' - gasCost'"

definition spec_profitPercentage :: "rat \<Rightarrow> rat \<Rightarrow> rat \<Rightarrow> rat \<Rightarrow> rat \<Rightarrow> rat \<Rightarrow> rat" where
  "spec_profitPercentage buyPrice' sellPrice' buyFeeRate sellFeeRate gasCost' tradeSize' =
     spec_profitAfterGas buyPrice' sellPrice' buyFeeRate sellFeeRate gasCost' tradeSize'
       / spec_totalBuyCost buyPrice' buyFeeRate tradeSize' * 100"

section \<open>Ranking\<close>

text \<open>
  \<^verbatim>\<open>Array.prototype.sort(comparefn)\<close> is a stable sort (ECMAScript 2019): an element moves
  behind another one only when the comparison function returns a number greater than
  zero for the pair. It is modelled by stable insertion. Both scans rank with
  \<^verbatim>\<open>(a, b) => b.profitPercentage - a.profitPercentage\<close>.
\<close>

fun js_insert :: "('a \<Rightarrow> 'a \<Rightarrow> jsnum) \<Rightarrow> 'a \<Rightarrow> 'a list \<Rightarrow> 'a list" where
  "js_insert comparefn x [] = [x]"
| "js_insert comparefn x (y # ys) =
     (if js_gt (comparefn x y) (JFin 0) then y # js_insert comparefn x ys else x # y # ys)"

definition js_sort :: "('a \<Rightarrow> 'a \<Rightarrow> jsnum) \<Rightarrow> 'a list \<Rightarrow> 'a list" where
  "js_sort comparefn xs = foldr (js_insert comparefn) xs []"

definition by_profit_desc ::
  "('a OpportunityBase_scheme) \<Rightarrow> ('a OpportunityBase_scheme) \<Rightarrow> jsnum" where
  "by_profit_desc a b = js_minus (profitPercentage b) (profitPercentage a)"

text \<open>
  Every finite double is an integer multiple of \<open>2\<^sup>-\<^sup>1\<^sup>0\<^sup>7\<^sup>4\<close>, the smallest positive double;
  this is the property of doubles on which the sign of a difference rests.
\<close>

definition subnormal_scale :: rat where
  "subnormal_scale = 2 ^ 1074"

definition is_double :: "jsnum \<Rightarrow> bool" where
  "is_double v =
     (case v of JFin r \<Rightarrow> of_int \<lfloor>r * subnormal_scale\<rfloor> = r * subnormal_scale | _ \<Rightarrow> True)"

section \<open>The strategy's evaluation of one pair\<close>

text \<open>
  \<^verbatim>\<open>BasicArbitrageStrategy\<close>: the constructor's fields; \<open>gasCosts\<close> holds the own
  properties of \<^verbatim>\<open>this.gasCosts\<close>. A price argument that is falsy (\<^verbatim>\<open>undefined\<close>, \<^verbatim>\<open>null\<close>,
  \<^verbatim>\<open>0\<close>, the empty string) is \<open>None\<close>; a present price is given by the \<^verbatim>\<open>BigNumber\<close> the
  code builds from it. The table \<^verbatim>\<open>dexPricesByNetwork\<close> is given by its own truthy
  properties; for the name of an inherited member the lookup yields a function, which
  passes the test \<^verbatim>\<open>if (!dexPrice) continue\<close> and of which \<^verbatim>\<open>new BigNumber\<close> makes \<^verbatim>\<open>NaN\<close>
  (an own property that is falsy and bears the name of an inherited member is not
  modelled). The \<open>k\<close>-th reading of the clock during one call is \<open>now k\<close>.
\<close>

record Strategy =
  minProfitPercentage :: jsnum
  networkPriority :: "string list"
  cexFee :: rat
  dexFee :: rat
  gasCosts :: "string \<Rightarrow> rat option"

record CexPrices =
  bid :: BigNumber
  ask :: BigNumber

text \<open>\<^verbatim>\<open>this.gasCosts[network] || 0.1\<close>, as the \<^verbatim>\<open>BigNumber\<close> that \<^verbatim>\<open>calculateSpread\<close> builds from it.\<close>

definition truthy_or :: "rat js_prop \<Rightarrow> rat \<Rightarrow> BigNumber" where
  "truthy_or v d =
     (case v of Own x \<Rightarrow> (if x = 0 then BFin d else BFin x) | Inherited \<Rightarrow> BNaN | Absent \<Rightarrow> BFin d)"

text \<open>\<^verbatim>\<open>dexPricesByNetwork[network]\<close> when it is truthy, as the \<^verbatim>\<open>BigNumber\<close> built from it.\<close>

definition truthy_price :: "BigNumber js_prop \<Rightarrow> BigNumber option" where
  "truthy_price v = (case v of Own p \<Rightarrow> Some p | Inherited \<Rightarrow> Some BNaN | Absent \<Rightarrow> None)"

fun evaluateNetworks ::
  "Strategy \<Rightarrow> (nat \<Rightarrow> nat) \<Rightarrow> CexPrices \<Rightarrow> (string \<Rightarrow> BigNumber option) \<Rightarrow>
   string option \<Rightarrow> string option \<Rightarrow> string list \<Rightarrow> nat \<Rightarrow> SpreadResult list \<Rightarrow>
   SpreadResult list" where
  "evaluateNetworks st now cexPrices dexPricesByNetwork bt qt [] k opportunities = opportunities"
| "evaluateNetworks st now cexPrices dexPricesByNetwork bt qt (network' # rest) k opportunities =
     (case truthy_price (js_get dexPricesByNetwork network') of
        None \<Rightarrow> evaluateNetworks st now cexPrices dexPricesByNetwork bt qt rest k opportunities
      | Some dexPrice \<Rightarrow>
          (let cexToDexSpread = calculateSpread (now k) (ask cexPrices) dexPrice
                 \<lparr> opt_buyFee = Some (cexFee st), opt_sellFee = Some (dexFee st),
                   opt_gasCost = Some (truthy_or (js_get (gasCosts st) network') (1 / 10)),
                   opt_baseToken = bt, opt_quoteToken = qt, opt_network = Some network',
                   opt_direction = Some ''cexToDex'', opt_tradeSize = None \<rparr>;
               dexToCexSpread = calculateSpread (now (k + 1)) dexPrice (bid cexPrices)
                 \<lparr> opt_buyFee = Some (dexFee st), opt_sellFee = Some (cexFee st),
                   opt_gasCost = Some (truthy_or (js_get (gasCosts st) network') (1 / 10)),
                   opt_baseToken = bt, opt_quoteToken = qt, opt_network = Some network',
                   opt_direction = Some ''dexToCex'', opt_tradeSize = None \<rparr>;
               opportunities1 =
                 (if js_gt (profitPercentage cexToDexSpread) (minProfitPercentage st)
                  then opportunities @ [cexToDexSpread] else opportunities);
               opportunities2 =
                 (if js_gt (profitPercentage dexToCexSpread) (minProfitPercentage st)
                  then opportunities1 @ [dexToCexSpread] else opportunities1)
           in evaluateNetworks st now cexPrices dexPricesByNetwork bt qt rest (k + 2)
                opportunities2))"

definition evaluateArbitrageOpportunities ::
  "Strategy \<Rightarrow> (nat \<Rightarrow> nat) \<Rightarrow> CexPrices option \<Rightarrow> (string \<Rightarrow> BigNumber option) option \<Rightarrow>
   string option \<Rightarrow> string option \<Rightarrow> SpreadResult list" where
  "evaluateArbitrageOpportunities st now cexPrices dexPricesByNetwork bt qt =
     (case (cexPrices, dexPricesByNetwork) of
        (Some cp, Some dp) \<Rightarrow>
          js_sort by_profit_desc (evaluateNetworks st now cp dp bt qt (networkPriority st) 0 [])
      | _ \<Rightarrow> [])"

section \<open>The venues and the state of the service\<close>

text \<open>
  The calls that leave the process (quoter and router contracts, token approvals, waiting
  for a transaction, the gas price, Binance orders) and the readings of the clock are
  answered by the \<open>World\<close>. An answer may depend on everything that happened before,
  so each answer is a function of the history, the list of calls made so far; every call
  is appended to the history whether it succeeds or raises. The ticker prices, which a
  websocket callback updates between two awaits, are read from the world in the same way.
  The world also tells which release of the \<^verbatim>\<open>ethers\<close> library is installed: the adapter
  calls \<^verbatim>\<open>ethers.parseUnits\<close> and \<^verbatim>\<open>ethers.formatUnits\<close>, which only release 6 has, and
  \<^verbatim>\<open>ethers.BigNumber.from\<close> and \<^verbatim>\<open>provider.getGasPrice\<close>, which only release 5 has; the
  call of a function that the library lacks raises a \<^verbatim>\<open>TypeError\<close>.
\<close>

datatype error =
    NotInitialized
  | TokenNotFound string string
  | InvalidUnits
  | NoValidPool string string string
  | InvalidAction string
  | SymbolInfoNotFound string
  | Rejected string
  | TypeError string

datatype ethers_release = Ethers5 | Ethers6

record SwapParams =
  tokenIn :: string
  tokenOut :: string
  fee :: nat
  recipient :: string
  deadline :: nat
  amountIn :: int
  amountOutMinimum :: int
  sqrtPriceLimitX96 :: int

datatype event =
    ClockRead
  | QuoteCall string string string nat int
  | ApproveSubmitted string string string int
  | TxWait string
  | GasPriceCall string
  | SwapSubmitted string SwapParams int int
  | OrderCall string string BigNumber

record CexTicker =
  ticker_bid :: "BigNumber option"
  ticker_ask :: "BigNumber option"

record World =
  ethers :: ethers_release
  clock :: "event list \<Rightarrow> nat"
  binance_prices :: "event list \<Rightarrow> string \<Rightarrow> CexTicker option"
  symbolInfo_stepSize :: "string \<Rightarrow> BigNumber option"
  member_of_member :: "string \<Rightarrow> string \<Rightarrow> bool"
  quoteExactInputSingle ::
    "event list \<Rightarrow> string \<Rightarrow> string \<Rightarrow> string \<Rightarrow> nat \<Rightarrow> int \<Rightarrow> error + int"
  approve :: "event list \<Rightarrow> string \<Rightarrow> string \<Rightarrow> string \<Rightarrow> int \<Rightarrow> error + string"
  wait :: "event list \<Rightarrow> string \<Rightarrow> error + unit"
  getGasPrice_provider :: "event list \<Rightarrow> string \<Rightarrow> error + int"
  exactInputSingle :: "event list \<Rightarrow> string \<Rightarrow> SwapParams \<Rightarrow> int \<Rightarrow> int \<Rightarrow> error + string"
  client_order :: "event list \<Rightarrow> string \<Rightarrow> string \<Rightarrow> BigNumber \<Rightarrow> error + nat"
  wallet_address :: string
  uniswap_initialized :: bool

text \<open>
  \<^verbatim>\<open>config\<close>: a trading pair \<^verbatim>\<open>BASE-QUOTE\<close> is given by the two tokens that
  \<^verbatim>\<open>pair.split('-')\<close> yields; a network is listed with the presence of its provider. The
  threshold, the slippage and the gas price multiplier are JavaScript numbers, the
  doubles that \<^verbatim>\<open>parseFloat\<close> returns.
\<close>

record Config =
  tradingPairs :: "(string \<times> string) list"
  networks :: "(string \<times> bool) list"
  minimumProfitPercentage :: jsnum
  maxSlippagePercentage :: jsnum
  gasLimit :: int
  gasPriceMultiplier :: jsnum
  uniswapV3Router :: string

text \<open>
  The mutable state of the process: the history, the \<^verbatim>\<open>NodeCache\<close> of the service (a
  value with the instant, in milliseconds, at which it expires), the ledger
  \<^verbatim>\<open>this.opportunities\<close>, and the price table the Uniswap adapter writes.
\<close>

record State =
  history :: "event list"
  cache :: "string \<Rightarrow> (rat \<times> nat) option"
  opportunities :: "Opportunity list"
  uniswap_prices :: "string \<Rightarrow> (rat \<times> nat) option"

type_synonym 'a prog = "State \<Rightarrow> (error + 'a) \<times> State"

definition ret :: "'a \<Rightarrow> 'a prog" where
  "ret x = (\<lambda>st. (Inr x, st))"

definition throw :: "error \<Rightarrow> 'a prog" where
  "throw e = (\<lambda>st. (Inl e, st))"

definition bind :: "'a prog \<Rightarrow> ('a \<Rightarrow> 'b prog) \<Rightarrow> 'b prog" where
  "bind m f = (\<lambda>st. case m st of (Inl e, st') \<Rightarrow> (Inl e, st') | (Inr x, st') \<Rightarrow> f x st')"

definition lift :: "error + 'a \<Rightarrow> 'a prog" where
  "lift r = (\<lambda>st. (r, st))"

text \<open>An external call: the world answers on the history so far, the call is recorded.\<close>

definition call :: "event \<Rightarrow> (event list \<Rightarrow> error + 'a) \<Rightarrow> 'a prog" where
  "call ev answer = (\<lambda>st. (answer (history st), st\<lparr>history := history st @ [ev]\<rparr>))"

definition date_now :: "World \<Rightarrow> nat prog" where
  "date_now w = call ClockRead (\<lambda>h. Inr (clock w h))"

section \<open>Tokens\<close>

text \<open>
  \<^verbatim>\<open>getTokenAddress\<close> looks the network up in the module object and the symbol in what it
  finds, and raises when either lookup is falsy. In a token table the name of an
  inherited member finds that member, which is returned in place of an address. When the
  network is itself the name of a member of the module object that is no token table (its
  two functions and the inherited members), the second lookup is made on a function or on
  the prototype object; whether it finds something truthy is told by the world
  (\<open>member_of_member\<close>; a lookup that itself raises counts as finding nothing). \<^verbatim>\<open>getTokenDecimals\<close> yields no number (\<open>None\<close>) for the name of an
  inherited member, which is truthy in \<^verbatim>\<open>decimalMap[symbol] || 18\<close>.
\<close>

definition token_table :: "(string \<times> (string \<times> string) list) list" where
  "token_table =
    [(''ethereum'',
       [(''WETH'', ''0xC02aaA39b223FE8D0A0e5C4F27eAD9083C756Cc2''),
        (''USDT'', ''0xdAC17F958D2ee523a2206206994597C13D831ec7''),
        (''USDC'', ''0xA0b86991c6218b36c1d19D4a2e9Eb0cE3606eB48''),
        (''WBTC'', ''0x2260FAC5E5542a773Aa44fBCfeDf7C193bc2C599''),
        (''LINK'', ''0x514910771AF9Ca656af840dff83E8264EcF986CA''),
        (''DAI'', ''0x6B175474E89094C44Da98b954EedeAC495271d0F'')]),
     (''arbitrum'',
       [(''WETH'', ''0x82aF49447D8a07e3bd95BD0d56f35241523fBab1''),
        (''USDT'', ''0xFd086bC7CD5C481DCC9C85ebE478A1C0b69FCbb9''),
        (''USDC'', ''0xFF970A61A04b1cA14834A43f5dE4533eBDDB5CC8''),
        (''WBTC'', ''0x2f2a2543B76A4166549F7aaB2e75Bef0aefC5B0f''),
        (''LINK'', ''0xf97f4df75117a78c1A5a0DBb814Af92458539FB4''),
        (''DAI'', ''0xDA10009cBd5D07dd0CeCc66161FC93D7c9000da1'')]),
     (''optimism'',
       [(''WETH'', ''0x4200000000000000000000000000000000000006''),
        (''USDT'', ''0x94b008aA00579c1307B0EF2c499aD98a8ce58e58''),
        (''USDC'', ''0x7F5c764cBc14f9669B88837ca1490cCa17c31607''),
        (''WBTC'', ''0x68f180fcCe6836688e9084f035309E29Bf0A2095''),
        (''LINK'', ''0x350a791Bfc2C21F9Ed5d10980Dad2e2638ffa7f6''),
        (''DAI'', ''0xDA10009cBd5D07dd0CeCc66161FC93D7c9000da1'')]),
     (''polygon'',
       [(''WETH'', ''0x7ceB23fD6bC0adD59E62ac25578270cFf1b9f619''),
        (''USDT'', ''0xc2132D05D31c914a87C6611C10748AEb04B58e8F''),
        (''USDC'', ''0x2791Bca1f2de4661ED88A30C99A7a9449Aa84174''),
        (''WBTC'', ''0x1BFD67037B42Cf73acF2047067bd4F2C47D9BfD6''),
        (''LINK'', ''0xb0897686c545045aFc77CF20eC7A532E3120E0F1''),
        (''DAI'', ''0x8f3Cf7ad23Cd3CaDbD9735AFf958023239c6A063'')])]"

definition getTokenAddress :: "World \<Rightarrow> string \<Rightarrow> string \<Rightarrow> error + string" where
  "getTokenAddress w network' symbol =
    (case map_of token_table network' of
       Some tokens \<Rightarrow>
         (case js_get (map_of tokens) symbol of
            Own address \<Rightarrow> Inr address
          | Inherited \<Rightarrow> Inr (''[inherited '' @ symbol @ '']'')
          | Absent \<Rightarrow> Inl (TokenNotFound symbol network'))
     | None \<Rightarrow>
         (if network' \<in> set (''getTokenAddress'' # ''getTokenDecimals'' # object_prototype_names)
             \<and> member_of_member w network' symbol
          then Inr (''['' @ network' @ ''.'' @ symbol @ '']'')
          else Inl (TokenNotFound symbol network')))"

definition getTokenDecimals :: "string \<Rightarrow> nat option" where
  "getTokenDecimals symbol =
    (case js_get (map_of [(''USDT'', 6), (''USDC'', 6), (''DAI'', 18), (''WETH'', 18),
                          (''ETH'', 18), (''WBTC'', 8), (''BTC'', 8), (''LINK'', 18)]) symbol of
       Own d \<Rightarrow> Some d
     | Inherited \<Rightarrow> None
     | Absent \<Rightarrow> Some 18)"

section \<open>The Uniswap adapter\<close>

text \<open>
  \<^verbatim>\<open>ethers.parseUnits\<close> accepts a decimal numeral with at most \<open>d\<close> decimals, and
  \<^verbatim>\<open>ethers.formatUnits\<close> prints an integer amount as a decimal; both want a number of
  decimals. The integer division of the \<^verbatim>\<open>ethers\<close> big integers truncates towards zero.
\<close>

definition parseUnits :: "BigNumber \<Rightarrow> nat option \<Rightarrow> error + int" where
  "parseUnits amount decimals =
    (case (amount, decimals) of
       (BFin r, Some d) \<Rightarrow>
         (if of_int \<lfloor>r * 10 ^ d\<rfloor> = r * 10 ^ d then Inr \<lfloor>r * 10 ^ d\<rfloor> else Inl InvalidUnits)
     | _ \<Rightarrow> Inl InvalidUnits)"

definition formatUnits :: "int \<Rightarrow> nat option \<Rightarrow> error + rat" where
  "formatUnits v decimals =
    (case decimals of Some d \<Rightarrow> Inr (of_int v / 10 ^ d) | None \<Rightarrow> Inl InvalidUnits)"

definition tdiv :: "int \<Rightarrow> int \<Rightarrow> int" where
  "tdiv a b = sgn a * sgn b * (\<bar>a\<bar> div \<bar>b\<bar>)"

text \<open>
  The functions of the library as the adapter calls them. No release has both
  \<^verbatim>\<open>ethers.parseUnits\<close> and \<^verbatim>\<open>ethers.BigNumber\<close>: in release 5 the former is
  \<^verbatim>\<open>ethers.utils.parseUnits\<close>, in release 6 the latter is gone.
\<close>

definition ethers_parseUnits :: "World \<Rightarrow> BigNumber \<Rightarrow> nat option \<Rightarrow> error + int" where
  "ethers_parseUnits w amount decimals =
    (if ethers w = Ethers6 then parseUnits amount decimals
     else Inl (TypeError ''ethers.parseUnits is not a function''))"

definition ethers_formatUnits :: "World \<Rightarrow> int \<Rightarrow> nat option \<Rightarrow> error + rat" where
  "ethers_formatUnits w v decimals =
    (if ethers w = Ethers6 then formatUnits v decimals
     else Inl (TypeError ''ethers.formatUnits is not a function''))"

definition ethers_BigNumber_from :: "World \<Rightarrow> int \<Rightarrow> error + int" where
  "ethers_BigNumber_from w v =
    (if ethers w = Ethers5 then Inr v
     else Inl (TypeError ''Cannot read properties of undefined (reading from)''))"

text \<open>
  \<^verbatim>\<open>Math.floor(x * k)\<close>: the product of two doubles is rounded to a double before the
  floor is taken; a product that is no finite double has no floor.
\<close>

definition floor_times :: "jsnum \<Rightarrow> rat \<Rightarrow> error + int" where
  "floor_times x k =
    (case x of
       JFin a \<Rightarrow> (case round_double (a * k) of JFin v \<Rightarrow> Inr \<lfloor>v\<rfloor> | _ \<Rightarrow> Inl InvalidUnits)
     | _ \<Rightarrow> Inl InvalidUnits)"

definition POOL_FEES :: "nat list" where
  "POOL_FEES = [500, 3000, 10000]"

definition has_provider :: "Config \<Rightarrow> string \<Rightarrow> bool" where
  "has_provider cfg network' = (map_of (networks cfg) network' = Some True)"

text \<open>
  The loop over the fee tiers: a quote that raises is skipped (\<^verbatim>\<open>continue\<close>), a larger
  quote replaces the best one. A network without provider has no quoter contract; the
  attempt to call it raises inside the loop and is skipped like a failed quote.
\<close>

fun quoteBest ::
  "World \<Rightarrow> Config \<Rightarrow> string \<Rightarrow> string \<Rightarrow> string \<Rightarrow> int \<Rightarrow> nat list \<Rightarrow> int \<times> nat \<Rightarrow>
   State \<Rightarrow> (int \<times> nat) \<times> State" where
  "quoteBest w cfg network' tin tout amount [] best st = (best, st)"
| "quoteBest w cfg network' tin tout amount (f # fs) best st =
     (if \<not> has_provider cfg network' then quoteBest w cfg network' tin tout amount fs best st
      else
        (case call (QuoteCall network' tin tout f amount)
                (\<lambda>h. quoteExactInputSingle w h network' tin tout f amount) st of
           (Inl e, st') \<Rightarrow> quoteBest w cfg network' tin tout amount fs best st'
         | (Inr amountOut, st') \<Rightarrow>
             (if fst best < amountOut
              then quoteBest w cfg network' tin tout amount fs (amountOut, f) st'
              else quoteBest w cfg network' tin tout amount fs best st')))"

definition quoteBestPool ::
  "World \<Rightarrow> Config \<Rightarrow> string \<Rightarrow> string \<Rightarrow> string \<Rightarrow> int \<Rightarrow> int \<Rightarrow> (int \<times> nat) prog" where
  "quoteBestPool w cfg network' tin tout amount bestAmountOut =
     (\<lambda>st. case quoteBest w cfg network' tin tout amount POOL_FEES (bestAmountOut, 10000) st of
              (best, st') \<Rightarrow> (Inr best, st'))"

definition store_price :: "string \<Rightarrow> rat \<Rightarrow> nat \<Rightarrow> rat prog" where
  "store_price pairKey price t =
     (\<lambda>st. (Inr price, st\<lparr>uniswap_prices := (uniswap_prices st)(pairKey \<mapsto> (price, t))\<rparr>))"

text \<open>
  \<^verbatim>\<open>getPrice\<close>, statement by statement. The amount is converted with
  \<^verbatim>\<open>ethers.parseUnits\<close> and the best quote starts at \<^verbatim>\<open>ethers.BigNumber.from(0)\<close>, before
  the first quote is asked for. The statements after these two calls are modelled as they
  are written, the comparisons and the arithmetic of the quotes as those of the big
  integers of release 5.
\<close>

definition uniswap_getPrice ::
  "World \<Rightarrow> Config \<Rightarrow> string \<Rightarrow> string \<Rightarrow> string \<Rightarrow> BigNumber \<Rightarrow> rat prog" where
  "uniswap_getPrice w cfg network' baseToken' quoteToken' amount =
    (if \<not> uniswap_initialized w then throw NotInitialized
     else
       bind (lift (getTokenAddress w network' baseToken')) (\<lambda>baseTokenAddress.
       bind (lift (getTokenAddress w network' quoteToken')) (\<lambda>quoteTokenAddress.
       bind (lift (ethers_parseUnits w amount (getTokenDecimals baseToken'))) (\<lambda>amountIn'.
       bind (lift (ethers_BigNumber_from w 0)) (\<lambda>bestAmountOut.
       bind (quoteBestPool w cfg network' baseTokenAddress quoteTokenAddress amountIn'
               bestAmountOut) (\<lambda>best.
       if fst best = 0 then throw (NoValidPool baseToken' quoteToken' network')
       else
         bind (lift (ethers_formatUnits w (fst best) (getTokenDecimals quoteToken'))) (\<lambda>price.
         bind (date_now w) (\<lambda>t.
         store_price (network' @ '':'' @ baseToken' @ ''-'' @ quoteToken') price t))))))))"

definition getGasPrice :: "World \<Rightarrow> Config \<Rightarrow> string \<Rightarrow> int prog" where
  "getGasPrice w cfg network' =
    (if ethers w \<noteq> Ethers5 then throw (TypeError ''provider.getGasPrice is not a function'')
     else
       bind (call (GasPriceCall network') (\<lambda>h. getGasPrice_provider w h network')) (\<lambda>gasPrice.
       bind (lift (floor_times (gasPriceMultiplier cfg) 100)) (\<lambda>m.
       ret (tdiv (gasPrice * m) 100))))"

text \<open>
  One branch of \<^verbatim>\<open>executeTrade\<close>: \<open>tin\<close> is the token spent and \<open>tout\<close> the token
  received. The branch starts with \<^verbatim>\<open>ethers.parseUnits\<close>. The approval is submitted and
  awaited (\<^verbatim>\<open>approveTx.wait()\<close>); the swap is submitted and the function returns with the
  hash of the submitted transaction.
\<close>

definition swapExactInput ::
  "World \<Rightarrow> Config \<Rightarrow> string \<Rightarrow> string \<Rightarrow> string \<Rightarrow> string \<Rightarrow> string \<Rightarrow> nat option \<Rightarrow>
   nat option \<Rightarrow> BigNumber \<Rightarrow> jsnum \<Rightarrow> nat \<Rightarrow> int \<Rightarrow> (string \<times> rat \<times> rat) prog" where
  "swapExactInput w cfg network' baseToken' quoteToken' tin tout decIn decOut amount
      slippagePercentage deadline' bestAmountOut =
    bind (lift (ethers_parseUnits w amount decIn)) (\<lambda>amountIn'.
    bind (quoteBestPool w cfg network' tin tout amountIn' bestAmountOut) (\<lambda>best.
    if fst best = 0 then throw (NoValidPool baseToken' quoteToken' network')
    else
      bind (lift (floor_times slippagePercentage 10)) (\<lambda>tenths.
      bind (call (ApproveSubmitted network' tin (uniswapV3Router cfg) amountIn')
              (\<lambda>h. approve w h network' tin (uniswapV3Router cfg) amountIn')) (\<lambda>approveTx.
      bind (call (TxWait approveTx) (\<lambda>h. wait w h approveTx)) (\<lambda>u.
      bind (getGasPrice w cfg network') (\<lambda>gasPrice.
      bind (call (SwapSubmitted network'
                    \<lparr> tokenIn = tin, tokenOut = tout, fee = snd best,
                      recipient = wallet_address w, deadline = deadline',
                      amountIn = amountIn',
                      amountOutMinimum = tdiv (fst best * (1000 - tenths)) 1000,
                      sqrtPriceLimitX96 = 0 \<rparr> (gasLimit cfg) gasPrice)
              (\<lambda>h. exactInputSingle w h network'
                    \<lparr> tokenIn = tin, tokenOut = tout, fee = snd best,
                      recipient = wallet_address w, deadline = deadline',
                      amountIn = amountIn',
                      amountOutMinimum = tdiv (fst best * (1000 - tenths)) 1000,
                      sqrtPriceLimitX96 = 0 \<rparr> (gasLimit cfg) gasPrice)) (\<lambda>txHash.
      bind (lift (ethers_formatUnits w amountIn' decIn)) (\<lambda>amountInText.
      bind (lift (ethers_formatUnits w (fst best) decOut)) (\<lambda>estimatedAmountOut.
      ret (txHash, amountInText, estimatedAmountOut))))))))))"

text \<open>
  \<^verbatim>\<open>executeTrade\<close>: the deadline is read from the clock, then the best quote starts at
  \<^verbatim>\<open>ethers.BigNumber.from(0)\<close>, then the branch of the action is taken.
\<close>

definition uniswap_executeTrade ::
  "World \<Rightarrow> Config \<Rightarrow> string \<Rightarrow> string \<Rightarrow> string \<Rightarrow> string \<Rightarrow> BigNumber \<Rightarrow> jsnum \<Rightarrow>
   (string \<times> rat \<times> rat) prog" where
  "uniswap_executeTrade w cfg network' action baseToken' quoteToken' amount slippagePercentage =
    (if \<not> uniswap_initialized w then throw NotInitialized
     else
       bind (lift (getTokenAddress w network' baseToken')) (\<lambda>baseTokenAddress.
       bind (lift (getTokenAddress w network' quoteToken')) (\<lambda>quoteTokenAddress.
       bind (date_now w) (\<lambda>t.
       bind (lift (ethers_BigNumber_from w 0)) (\<lambda>bestAmountOut.
       if action = ''buy'' then
         swapExactInput w cfg network' baseToken' quoteToken' quoteTokenAddress
           baseTokenAddress (getTokenDecimals quoteToken') (getTokenDecimals baseToken')
           amount slippagePercentage (t div 1000 + 300) bestAmountOut
       else if action = ''sell'' then
         swapExactInput w cfg network' baseToken' quoteToken' baseTokenAddress
           quoteTokenAddress (getTokenDecimals baseToken') (getTokenDecimals quoteToken')
           amount slippagePercentage (t div 1000 + 300) bestAmountOut
       else throw (InvalidAction action))))))"

section \<open>The Binance adapter\<close>

text \<open>
  \<^verbatim>\<open>getSymbolFromPair\<close> splits \<^verbatim>\<open>BASE-QUOTE\<close> at the dash and joins the two tokens in upper
  case; it is given the two tokens. \<^verbatim>\<open>executeBuy\<close> and \<^verbatim>\<open>executeSell\<close> log a failed order
  and throw it again. \<open>symbolInfo_stepSize\<close> holds the own properties of the table
  \<^verbatim>\<open>this.symbolInfo\<close>: the step size of a loaded symbol, as the \<^verbatim>\<open>BigNumber\<close> read from
  the string that \<^verbatim>\<open>initialize\<close> stored for it. In \<^verbatim>\<open>normalizeQuantity\<close> the name of an
  inherited member finds that member, which passes the test \<^verbatim>\<open>if (!info)\<close> and has no
  \<^verbatim>\<open>stepSize\<close>, so that the step is \<^verbatim>\<open>new BigNumber(undefined)\<close>, which is \<^verbatim>\<open>NaN\<close>. The ticker
  table is read with \<^verbatim>\<open>this.prices[symbol]\<close> in the same way, but an inherited member has
  neither \<^verbatim>\<open>bid\<close> nor \<^verbatim>\<open>ask\<close>, and the price read from it is as falsy as a missing one.
\<close>

definition toUpperCase :: "string \<Rightarrow> string" where
  "toUpperCase s =
     map (\<lambda>c. let n = (of_char c :: nat) in
               if 97 \<le> n \<and> n \<le> 122 then char_of (n - 32) else c) s"

definition getSymbolFromPair :: "string \<Rightarrow> string \<Rightarrow> string" where
  "getSymbolFromPair base quote = toUpperCase (base @ quote)"

definition getBestAsk :: "World \<Rightarrow> event list \<Rightarrow> string \<Rightarrow> BigNumber option" where
  "getBestAsk w h symbol = (case binance_prices w h symbol of None \<Rightarrow> None | Some p \<Rightarrow> ticker_ask p)"

definition getBestBid :: "World \<Rightarrow> event list \<Rightarrow> string \<Rightarrow> BigNumber option" where
  "getBestBid w h symbol = (case binance_prices w h symbol of None \<Rightarrow> None | Some p \<Rightarrow> ticker_bid p)"

definition executeBuy :: "World \<Rightarrow> string \<Rightarrow> BigNumber \<Rightarrow> nat prog" where
  "executeBuy w symbol quantity =
     call (OrderCall ''BUY'' symbol quantity) (\<lambda>h. client_order w h ''BUY'' symbol quantity)"

definition executeSell :: "World \<Rightarrow> string \<Rightarrow> BigNumber \<Rightarrow> nat prog" where
  "executeSell w symbol quantity =
     call (OrderCall ''SELL'' symbol quantity) (\<lambda>h. client_order w h ''SELL'' symbol quantity)"

definition normalizeQuantity :: "World \<Rightarrow> string \<Rightarrow> BigNumber \<Rightarrow> error + BigNumber" where
  "normalizeQuantity w symbol quantity =
    (case js_get (symbolInfo_stepSize w) symbol of
       Absent \<Rightarrow> Inl (SymbolInfoNotFound symbol)
     | Own stepSize \<Rightarrow> Inr (multipliedBy (dividedToIntegerBy quantity stepSize) stepSize)
     | Inherited \<Rightarrow> Inr (multipliedBy (dividedToIntegerBy quantity BNaN) BNaN))"

section \<open>The arbitrage service\<close>

text \<open>
  \<^verbatim>\<open>NodeCache({ stdTTL: 60 })\<close>: \<^verbatim>\<open>get\<close> returns the stored value unless it has expired
  (its expiry instant lies before the present one; an expired entry is deleted, and an
  expiry of 0 means none), \<^verbatim>\<open>set\<close> without a time to live stores the value for 60
  seconds from the present instant. Both read the clock, \<^verbatim>\<open>get\<close> only for a key that is
  present. A cached value is a price as a decimal string that is not empty, the kind of
  value that \<^verbatim>\<open>getDexPrice\<close> stores, so that the test \<^verbatim>\<open>if (cachedPrice)\<close> succeeds exactly
  on a value that \<^verbatim>\<open>get\<close> returns.
\<close>

definition read_clock :: "World \<Rightarrow> State \<Rightarrow> nat \<times> State" where
  "read_clock w st = (clock w (history st), st\<lparr>history := history st @ [ClockRead]\<rparr>)"

definition cache_get :: "World \<Rightarrow> string \<Rightarrow> State \<Rightarrow> rat option \<times> State" where
  "cache_get w key st =
     (case cache st key of
        None \<Rightarrow> (None, st)
      | Some (v, expiry) \<Rightarrow>
          (case read_clock w st of (t, st') \<Rightarrow>
             if expiry \<noteq> 0 \<and> expiry < t then (None, st'\<lparr>cache := (cache st')(key := None)\<rparr>)
             else (Some v, st')))"

definition cache_set :: "World \<Rightarrow> string \<Rightarrow> rat \<Rightarrow> State \<Rightarrow> State" where
  "cache_set w key v st =
     (case read_clock w st of (t, st') \<Rightarrow>
        st'\<lparr>cache := (cache st')(key \<mapsto> (v, t + 60 * 1000))\<rparr>)"

definition cacheKey :: "string \<Rightarrow> string \<Rightarrow> string \<Rightarrow> string" where
  "cacheKey network' baseToken' quoteToken' =
     ''dexPrice:'' @ network' @ '':'' @ baseToken' @ ''-'' @ quoteToken'"

text \<open>\<^verbatim>\<open>try { ... } catch (error) { ...; return null; }\<close>: \<open>None\<close> is \<^verbatim>\<open>null\<close>.\<close>

definition getDexPrice_body ::
  "World \<Rightarrow> Config \<Rightarrow> string \<Rightarrow> string \<Rightarrow> string \<Rightarrow> rat prog" where
  "getDexPrice_body w cfg network' baseToken' quoteToken' st =
     (case cache_get w (cacheKey network' baseToken' quoteToken') st of
        (Some cachedPrice, st1) \<Rightarrow> (Inr cachedPrice, st1)
      | (None, st1) \<Rightarrow>
          (case uniswap_getPrice w cfg network' baseToken' quoteToken' (BFin 1) st1 of
             (Inl e, st2) \<Rightarrow> (Inl e, st2)
           | (Inr price, st2) \<Rightarrow>
               (Inr price, cache_set w (cacheKey network' baseToken' quoteToken') price st2)))"

definition getDexPrice ::
  "World \<Rightarrow> Config \<Rightarrow> string \<Rightarrow> string \<Rightarrow> string \<Rightarrow> State \<Rightarrow> rat option \<times> State" where
  "getDexPrice w cfg network' baseToken' quoteToken' st =
     (case getDexPrice_body w cfg network' baseToken' quoteToken' st of
        (Inr price, st') \<Rightarrow> (Some price, st')
      | (Inl e, st') \<Rightarrow> (None, st'))"

text \<open>
  The body of the loop over the networks for one pair; each \<^verbatim>\<open>calculateProfit\<close> reads the
  clock for its \<^verbatim>\<open>timestamp\<close>. Nothing in the body raises: the prices
  are read from the ticker table, \<^verbatim>\<open>getDexPrice\<close> catches, and the arithmetic of
  \<^verbatim>\<open>calculateProfit\<close> does not throw.
\<close>

fun scanNetworks ::
  "World \<Rightarrow> Config \<Rightarrow> string \<Rightarrow> string \<Rightarrow> (string \<times> bool) list \<Rightarrow> Opportunity list \<Rightarrow>
   State \<Rightarrow> Opportunity list \<times> State" where
  "scanNetworks w cfg baseToken' quoteToken' [] opps st = (opps, st)"
| "scanNetworks w cfg baseToken' quoteToken' ((network', provider) # rest) opps st =
     (if \<not> provider then scanNetworks w cfg baseToken' quoteToken' rest opps st
      else
        (case (getBestBid w (history st) (getSymbolFromPair baseToken' quoteToken'),
               getBestAsk w (history st) (getSymbolFromPair baseToken' quoteToken')) of
           (Some cexBid, Some cexAsk) \<Rightarrow>
             (case getDexPrice w cfg network' baseToken' quoteToken' st of
                (None, st1) \<Rightarrow> scanNetworks w cfg baseToken' quoteToken' rest opps st1
              | (Some dexPrice, st1) \<Rightarrow>
                  (case read_clock w st1 of (t1, st2) \<Rightarrow>
                  (case read_clock w st2 of (t2, st3) \<Rightarrow>
                     (let dexToCexProfit = calculateProfit t1 ''dexToCex'' network' baseToken'
                            quoteToken' (BFin dexPrice) cexBid;
                          cexToDexProfit = calculateProfit t2 ''cexToDex'' network' baseToken'
                            quoteToken' cexAsk (BFin dexPrice);
                          opps1 = (if js_gt (profitPercentage dexToCexProfit) (JFin 0)
                                   then opps @ [dexToCexProfit] else opps);
                          opps2 = (if js_gt (profitPercentage cexToDexProfit) (JFin 0)
                                   then opps1 @ [cexToDexProfit] else opps1)
                      in scanNetworks w cfg baseToken' quoteToken' rest opps2 st3))))
         | _ \<Rightarrow> scanNetworks w cfg baseToken' quoteToken' rest opps st))"

fun scanPairs ::
  "World \<Rightarrow> Config \<Rightarrow> (string \<times> string) list \<Rightarrow> Opportunity list \<Rightarrow> State \<Rightarrow>
   Opportunity list \<times> State" where
  "scanPairs w cfg [] opps st = (opps, st)"
| "scanPairs w cfg ((baseToken', quoteToken') # rest) opps st =
     (case scanNetworks w cfg baseToken' quoteToken' (networks cfg) opps st of
        (opps', st') \<Rightarrow> scanPairs w cfg rest opps' st')"

definition findArbitrageOpportunities ::
  "World \<Rightarrow> Config \<Rightarrow> State \<Rightarrow> Opportunity list \<times> State" where
  "findArbitrageOpportunities w cfg st =
     (case scanPairs w cfg (tradingPairs cfg) [] st of
        (opps, st') \<Rightarrow>
          (js_sort by_profit_desc opps, st'\<lparr>opportunities := js_sort by_profit_desc opps\<rparr>))"

text \<open>
  \<^verbatim>\<open>executeArbitrage\<close>: the \<^verbatim>\<open>try\<close> block, then the function with its \<^verbatim>\<open>catch\<close>, which
  turns every error into the result \<^verbatim>\<open>false\<close>. A direction other than \<^verbatim>\<open>dexToCex\<close>
  takes the \<^verbatim>\<open>else\<close> branch.
\<close>

definition executeArbitrage_try :: "World \<Rightarrow> Config \<Rightarrow> Opportunity \<Rightarrow> bool prog" where
  "executeArbitrage_try w cfg opportunity =
     (let binanceSymbol = getSymbolFromPair (baseToken opportunity) (quoteToken opportunity) in
      if direction opportunity = ''dexToCex'' then
        bind (uniswap_executeTrade w cfg (network opportunity) ''buy'' (baseToken opportunity)
                (quoteToken opportunity) (tradeAmount opportunity) (maxSlippagePercentage cfg))
          (\<lambda>buyResult.
        bind (executeSell w binanceSymbol (tradeAmount opportunity)) (\<lambda>sellResult.
        ret True))
      else
        bind (lift (normalizeQuantity w binanceSymbol (tradeAmount opportunity))) (\<lambda>quantity.
        bind (executeBuy w binanceSymbol quantity) (\<lambda>buyResult.
        bind (uniswap_executeTrade w cfg (network opportunity) ''sell'' (baseToken opportunity)
                (quoteToken opportunity) (tradeAmount opportunity) (maxSlippagePercentage cfg))
          (\<lambda>sellResult.
        ret True))))"

definition executeArbitrage :: "World \<Rightarrow> Config \<Rightarrow> Opportunity \<Rightarrow> State \<Rightarrow> bool \<times> State" where
  "executeArbitrage w cfg opportunity st =
     (case executeArbitrage_try w cfg opportunity st of
        (Inr result, st') \<Rightarrow> (result, st')
      | (Inl e, st') \<Rightarrow> (False, st'))"

text \<open>
  One iteration of \<^verbatim>\<open>runArbitrageLoop\<close>: the scan, then the loop over its result that
  executes the entries above the configured threshold.
\<close>

fun executeProfitable :: "World \<Rightarrow> Config \<Rightarrow> Opportunity list \<Rightarrow> State \<Rightarrow> State" where
  "executeProfitable w cfg [] st = st"
| "executeProfitable w cfg (opp # rest) st =
     (if js_gt (profitPercentage opp) (minimumProfitPercentage cfg)
      then executeProfitable w cfg rest (snd (executeArbitrage w cfg opp st))
      else executeProfitable w cfg rest st)"

definition runArbitrageIteration :: "World \<Rightarrow> Config \<Rightarrow> State \<Rightarrow> State" where
  "runArbitrageIteration w cfg st =
     (case findArbitrageOpportunities w cfg st of
        (opps, st') \<Rightarrow> executeProfitable w cfg opps st')"

text \<open>
  Every profit a scan computes, in the order of discovery, before the test
  \<^verbatim>\<open>profitPercentage > 0\<close> decides whether it is pushed: the same traversal as
  \<open>scanNetworks\<close> and \<open>scanPairs\<close>, keeping every result.
\<close>

fun computedNetworks ::
  "World \<Rightarrow> Config \<Rightarrow> string \<Rightarrow> string \<Rightarrow> (string \<times> bool) list \<Rightarrow> State \<Rightarrow>
   Opportunity list \<times> State" where
  "computedNetworks w cfg baseToken' quoteToken' [] st = ([], st)"
| "computedNetworks w cfg baseToken' quoteToken' ((network', provider) # rest) st =
     (if \<not> provider then computedNetworks w cfg baseToken' quoteToken' rest st
      else
        (case (getBestBid w (history st) (getSymbolFromPair baseToken' quoteToken'),
               getBestAsk w (history st) (getSymbolFromPair baseToken' quoteToken')) of
           (Some cexBid, Some cexAsk) \<Rightarrow>
             (case getDexPrice w cfg network' baseToken' quoteToken' st of
                (None, st1) \<Rightarrow> computedNetworks w cfg baseToken' quoteToken' rest st1
              | (Some dexPrice, st1) \<Rightarrow>
                  (case read_clock w st1 of (t1, st2) \<Rightarrow>
                  (case read_clock w st2 of (t2, st3) \<Rightarrow>
                  (case computedNetworks w cfg baseToken' quoteToken' rest st3 of
                     (others, st4) \<Rightarrow>
                       (calculateProfit t1 ''dexToCex'' network' baseToken' quoteToken'
                          (BFin dexPrice) cexBid
                        # calculateProfit t2 ''cexToDex'' network' baseToken' quoteToken'
                            cexAsk (BFin dexPrice)
                        # others, st4)))))
         | _ \<Rightarrow> computedNetworks w cfg baseToken' quoteToken' rest st))"

fun computedPairs ::
  "World \<Rightarrow> Config \<Rightarrow> (string \<times> string) list \<Rightarrow> State \<Rightarrow> Opportunity list \<times> State" where
  "computedPairs w cfg [] st = ([], st)"
| "computedPairs w cfg ((baseToken', quoteToken') # rest) st =
     (case computedNetworks w cfg baseToken' quoteToken' (networks cfg) st of
        (found, st') \<Rightarrow>
          (case computedPairs w cfg rest st' of (others, st'') \<Rightarrow> (found @ others, st'')))"

text \<open>The JavaScript comparison \<^verbatim>\<open>a >= b\<close>, in which the ranking is stated.\<close>

fun js_ge :: "jsnum \<Rightarrow> jsnum \<Rightarrow> bool" where
  "js_ge JNaN y = False"
| "js_ge x JNaN = False"
| "js_ge (JFin a) (JFin b) = (b \<le> a)"
| "js_ge JPInf y = True"
| "js_ge x JNInf = True"
| "js_ge x y = False"

text \<open>
  A list is ranked when the profit percentage never increases along it; an entry is
  profitable, for the scan of the service, when its percentage exceeds zero.
\<close>

definition ranked :: "('a OpportunityBase_scheme) list \<Rightarrow> bool" where
  "ranked xs = sorted_wrt (\<lambda>a b. js_ge (profitPercentage a) (profitPercentage b)) xs"

definition profitable :: "('a OpportunityBase_scheme) \<Rightarrow> bool" where
  "profitable opp = js_gt (profitPercentage opp) (JFin 0)"

definition above_threshold :: "Config \<Rightarrow> ('a OpportunityBase_scheme) \<Rightarrow> bool" where
  "above_threshold cfg opp = js_gt (profitPercentage opp) (minimumProfitPercentage cfg)"

section \<open>Example inputs\<close>

text \<open>
  A world in which every venue answers: the ticker quotes 100 on both sides of
  \<^verbatim>\<open>WETHUSDT\<close>, the 0.3% pool would quote 100.5 USDT for one WETH, and the clock advances by
  one with every recorded call. The installed release of \<^verbatim>\<open>ethers\<close> is a parameter, as is
  the answer of Binance to an order. The configuration trades \<^verbatim>\<open>WETH-USDT\<close> on Optimism
  with the defaults of the threshold (0.5), the slippage (0.5) and the gas price
  multiplier (the double nearest to 1.1).
\<close>

definition example_world_of :: "ethers_release \<Rightarrow> (error + nat) \<Rightarrow> World" where
  "example_world_of release order_answer =
    \<lparr> ethers = release,
      clock = (\<lambda>h. length h),
      binance_prices = (\<lambda>h s. if s = ''WETHUSDT''
          then Some \<lparr> ticker_bid = Some (BFin 100), ticker_ask = Some (BFin 100) \<rparr> else None),
      symbolInfo_stepSize = (\<lambda>s. if s = ''WETHUSDT'' then Some (BFin (1 / 10000)) else None),
      member_of_member = (\<lambda>n s. False),
      quoteExactInputSingle = (\<lambda>h n tin tout f a.
          if f = 3000 then Inr 100500000 else Inl (Rejected ''no pool'')),
      approve = (\<lambda>h n t s a. Inr ''0xapprove''),
      wait = (\<lambda>h tx. Inr ()),
      getGasPrice_provider = (\<lambda>h n. Inr 30),
      exactInputSingle = (\<lambda>h n p gl gp. Inr ''0xswap''),
      client_order = (\<lambda>h side s q. order_answer),
      wallet_address = ''0xwallet'',
      uniswap_initialized = True \<rparr>"

definition example_world :: World where
  "example_world = example_world_of Ethers6 (Inr 1)"

text \<open>
  Two variations: the same world with release 5 of \<^verbatim>\<open>ethers\<close>, and a world in which
  Binance rejects every order.
\<close>

definition ethers5_world :: World where
  "ethers5_world = example_world_of Ethers5 (Inr 1)"

definition rejecting_binance_world :: World where
  "rejecting_binance_world = example_world_of Ethers6 (Inl (Rejected ''insufficient balance''))"

definition example_config :: Config where
  "example_config =
    \<lparr> tradingPairs = [(''WETH'', ''USDT'')],
      networks = [(''ethereum'', False), (''optimism'', True)],
      minimumProfitPercentage = JFin (1 / 2),
      maxSlippagePercentage = JFin (1 / 2),
      gasLimit = 500000,
      gasPriceMultiplier = round_double (11 / 10),
      uniswapV3Router = ''0xE592427A0AEce92De3Edee1F18E0157C05861564'' \<rparr>"

definition initial_state :: State where
  "initial_state =
    \<lparr> history = [], cache = (\<lambda>k. None), opportunities = [], uniswap_prices = (\<lambda>k. None) \<rparr>"

definition example_opportunity :: "string \<Rightarrow> Opportunity" where
  "example_opportunity d =
     calculateProfit 0 d ''optimism'' ''WETH'' ''USDT'' (BFin 100) (BFin 101)"

text \<open>Four entries with the percentages 1.2, 3.4, 3.4 and 0.9, told apart by their timestamps.\<close>

definition ranking_entry :: "rat \<Rightarrow> nat \<Rightarrow> OpportunityBase" where
  "ranking_entry p t =
    \<lparr> direction = ''cexToDex'', network = ''optimism'', baseToken = ''WETH'',
      quoteToken = ''USDT'', buyPrice = BFin 100, sellPrice = BFin 101,
      profitPercentage = toNumber (BFin p), timestamp = t \<rparr>"

text \<open>
  The state whose price cache holds a quote of 100.5 with the expiry instant \<open>e\<close>, and the
  one in which this quote expires at instant 60000.
\<close>

definition cached_state :: "nat \<Rightarrow> State" where
  "cached_state e = initial_state\<lparr>cache :=
     (\<lambda>k. if k = cacheKey ''optimism'' ''WETH'' ''USDT'' then Some (201 / 2, e) else None)\<rparr>"

definition warm_state :: State where
  "warm_state = cached_state 60000"

text \<open>
  A state in which the same quote expired at instant 1 and the clock, two readings later,
  shows 2.
\<close>

definition stale_state :: State where
  "stale_state = (cached_state 1)\<lparr>history := [ClockRead, ClockRead]\<rparr>"


text \<open>A world in which the exchange reports a step size of \<^verbatim>\<open>0.00000000\<close> for every symbol.\<close>

definition zero_step_world :: World where
  "zero_step_world = example_world\<lparr>symbolInfo_stepSize := (\<lambda>s. Some (BFin 0))\<rparr>"

section \<open>Properties of the spread calculators\<close>

lemma round_half_up_pos_error:
  assumes "0 < q"
  shows "\<bar>round_half_up dp q - q\<bar> \<le> 1 / (2 * 10 ^ dp)"
proof -
  let ?x = "q * 10 ^ dp"
  let ?f = "of_int \<lfloor>?x + 1 / 2\<rfloor> :: rat"
  have p: "(0::rat) < 10 ^ dp" by simp
  have "?f \<le> ?x + 1 / 2" by (rule of_int_floor_le)
  moreover have "?x + 1 / 2 < ?f + 1" by linarith
  ultimately have "\<bar>?f - ?x\<bar> \<le> 1 / 2" by linarith
  then have "\<bar>?f - ?x\<bar> / 10 ^ dp \<le> (1 / 2) / 10 ^ dp"
    using p by (intro divide_right_mono) simp_all
  moreover have "(?f - ?x) / 10 ^ dp = ?f / 10 ^ dp - q"
    by (simp add: diff_divide_distrib)
  then have "\<bar>?f - ?x\<bar> / 10 ^ dp = \<bar>?f / 10 ^ dp - q\<bar>"
    using p by (metis abs_divide abs_of_pos)
  ultimately have "\<bar>?f / 10 ^ dp - q\<bar> \<le> 1 / (2 * 10 ^ dp)" by simp
  moreover have "round_half_up dp q = ?f / 10 ^ dp"
    using assms by (simp add: round_half_up_def)
  ultimately show ?thesis by simp
qed

lemma round_half_up_neg: "round_half_up dp (- q) = - round_half_up dp q"
  by (simp add: round_half_up_def sgn_minus)

lemma round_half_up_error: "\<bar>round_half_up dp q - q\<bar> \<le> 1 / (2 * 10 ^ dp)"
proof -
  consider "q = 0" | "0 < q" | "q < 0" by linarith
  then show ?thesis
  proof cases
    case 1
    then show ?thesis by (simp add: round_half_up_def)
  next
    case 2
    then show ?thesis by (rule round_half_up_pos_error)
  next
    case 3
    then have "0 < - q" by simp
    from round_half_up_pos_error[OF this, of dp]
    have "\<bar>- round_half_up dp q + q\<bar> \<le> 1 / (2 * 10 ^ dp)"
      by (simp add: round_half_up_neg)
    moreover have "\<bar>- round_half_up dp q + q\<bar> = \<bar>round_half_up dp q - q\<bar>"
      by (metis abs_minus_commute add.commute uminus_add_conv_diff)
    ultimately show ?thesis by simp
  qed
qed

text \<open>
  On finite prices and a finite gas cost \<^verbatim>\<open>calculateSpread\<close> follows the specification's
  algorithm field by field; only the percentage goes through the rounding division and
  \<^verbatim>\<open>toNumber\<close>.
\<close>

lemma calculateSpread_fields:
  "or_default (opt_gasCost opts) (BFin (1 / 10)) = BFin gas \<Longrightarrow>
   calculateSpread now (BFin b) (BFin s) opts =
    (let t = or_default (opt_tradeSize opts) 1;
         f = or_default (opt_buyFee opts) (1 / 1000);
         g = or_default (opt_sellFee opts) (1 / 1000);
         tbc = b * t + b * t * f;
         tsp = s * t - s * t * g;
         pag = tsp - tbc - gas
     in \<lparr> direction = or_default (opt_direction opts) ''cexToDex'',
          network = or_default (opt_network opts) ''ethereum'',
          baseToken = or_default (opt_baseToken opts) ''ETH'',
          quoteToken = or_default (opt_quoteToken opts) ''USDT'',
          buyPrice = BFin b, sellPrice = BFin s,
          profitPercentage = toNumber (multipliedBy (dividedBy (BFin pag) (BFin tbc)) (BFin 100)),
          timestamp = now, buyFee = f, sellFee = g, tradeSize = BFin t,
          totalBuyCost = BFin tbc, totalSellProceeds = BFin tsp, gasCost = BFin gas,
          rawProfit = BFin (tsp - tbc), profitAfterGas = BFin pag \<rparr>)"
  by (simp add: calculateSpread_def Let_def minus_bn_def algebra_simps)

text \<open>
  \<^verbatim>\<open>calculateProfit\<close> on finite prices, for a network that is not the name of an inherited
  member of the gas table: the fee of the buying venue is \<open>tradeAmount \<times> rate\<close>, without
  the buy price, while the fee of the selling venue is \<open>tradeAmount \<times> sellPrice \<times> rate\<close>.
\<close>

lemma js_get_not_inherited:
  "n \<notin> set object_prototype_names \<Longrightarrow>
     (case js_get table n of Own g \<Rightarrow> BFin g | Inherited \<Rightarrow> BNaN | Absent \<Rightarrow> BFin d)
       = BFin (or_default (table n) d)"
  by (simp add: js_get_def or_default_def split: option.splits)

lemma calculateProfit_fields:
  "n \<notin> set object_prototype_names \<Longrightarrow>
   calculateProfit now d n bt qt (BFin b) (BFin s) =
    (let rate_buy = (if d = ''dexToCex'' then fees_uniswap_fee else fees_binance_taker);
         rate_sell = (if d = ''dexToCex'' then fees_binance_taker else fees_uniswap_fee);
         cost = b + rate_buy;
         p = s - s * rate_sell - cost - or_default (fees_gas n) (1 / 10)
     in \<lparr> direction = d, network = n, baseToken = bt, quoteToken = qt,
          buyPrice = BFin b, sellPrice = BFin s,
          profitPercentage = toNumber (multipliedBy (dividedBy (BFin p) (BFin cost)) (BFin 100)),
          timestamp = now, tradeAmount = BFin 1, estimatedProfit = BFin p \<rparr>)"
  by (simp add: calculateProfit_def Let_def minus_bn_def js_get_not_inherited algebra_simps)

lemma percentage_rounding_error:
  "\<bar>round_half_up 20 q * 100 - q * 100\<bar> \<le> 5 / 10 ^ 19"
proof -
  have "\<bar>round_half_up 20 q - q\<bar> \<le> 1 / (2 * 10 ^ 20)"
    by (rule round_half_up_error)
  then have "100 * \<bar>round_half_up 20 q - q\<bar> \<le> 100 * (1 / (2 * 10 ^ 20))"
    by (intro mult_left_mono) simp_all
  moreover have "round_half_up 20 q * 100 - q * 100 = 100 * (round_half_up 20 q - q)"
    by (simp only: right_diff_distrib mult.commute)
  then have "100 * \<bar>round_half_up 20 q - q\<bar> = \<bar>round_half_up 20 q * 100 - q * 100\<bar>"
    by (simp only: abs_mult abs_numeral)
  ultimately show ?thesis by simp
qed

text \<open>
  C1. The claim: for every input with a positive total buy cost the spread computation
  (\<^verbatim>\<open>calculateSpread\<close> and \<^verbatim>\<open>calculateProfit\<close>) returns the specification's profit
  percentage, the buy fee being \<open>buyCost \<times> buyFeeRate\<close> in both directions.
  \<^verbatim>\<open>calculateProfit\<close> does not: on the specification's own scenario (ask 100, quote 101,
  fees 0.1% and 0.3%, gas 0.10, one unit) it charges a buy fee of 0.001 instead of 0.1,
  reports a profit of 0.596 instead of 0.497 and a percentage above the 0.5 threshold
  where the formula stays below it. \<^verbatim>\<open>calculateSpread\<close> on the same input yields 0.497.
\<close>

theorem calculateProfit_buy_fee_not_scaled_by_price:
  "estimatedProfit (calculateProfit 0 ''cexToDex'' ''optimism'' ''ETH'' ''USDT''
       (BFin 100) (BFin 101)) = BFin (596 / 1000)
   \<and> spec_profitAfterGas 100 101 (1 / 1000) (3 / 1000) (1 / 10) 1 = 497 / 1000
   \<and> js_gt (profitPercentage (calculateProfit 0 ''cexToDex'' ''optimism'' ''ETH'' ''USDT''
       (BFin 100) (BFin 101))) (JFin (1 / 2))
   \<and> spec_profitPercentage 100 101 (1 / 1000) (3 / 1000) (1 / 10) 1 < 1 / 2
   \<and> profitAfterGas (calculateSpread 0 (BFin 100) (BFin 101)
       (no_options\<lparr>opt_sellFee := Some (3 / 1000)\<rparr>)) = BFin (497 / 1000)"
  by code_simp

text \<open>
  C5, as stated: every money-valued field is exact and the percentage is rounded only when
  it is reported, never before the threshold comparisons. The code rounds inside the
  calculator. With a buy price of 1000, a sell price of 1005.0000000000000001 and no fee
  or gas, the exact percentage is 0.50000000000000001; the field holds the double 0.5, so
  the invariant fails and the comparison with a threshold of 0.5 sees a value that does
  not exceed it.
\<close>

theorem calculateSpread_percentage_inexact_counterexample:
  "rawProfit (calculateSpread 0 (BFin 1000) (BFin (10050000000000000001 / 10 ^ 16))
       (no_options\<lparr>opt_buyFee := Some 0, opt_sellFee := Some 0, opt_gasCost := Some (BFin 0)\<rparr>))
     = BFin (50000000000000001 / 10 ^ 16)
   \<and> gasCost (calculateSpread 0 (BFin 1000) (BFin (10050000000000000001 / 10 ^ 16))
       (no_options\<lparr>opt_buyFee := Some 0, opt_sellFee := Some 0, opt_gasCost := Some (BFin 0)\<rparr>))
     = BFin 0
   \<and> totalBuyCost (calculateSpread 0 (BFin 1000) (BFin (10050000000000000001 / 10 ^ 16))
       (no_options\<lparr>opt_buyFee := Some 0, opt_sellFee := Some 0, opt_gasCost := Some (BFin 0)\<rparr>))
     = BFin 1000
   \<and> profitPercentage (calculateSpread 0 (BFin 1000) (BFin (10050000000000000001 / 10 ^ 16))
       (no_options\<lparr>opt_buyFee := Some 0, opt_sellFee := Some 0, opt_gasCost := Some (BFin 0)\<rparr>))
     = JFin (1 / 2)
   \<and> (50000000000000001 / 10 ^ 16 - 0) / 1000 * 100 \<noteq> (1 / 2 :: rat)
   \<and> (1 / 2 :: rat) < (50000000000000001 / 10 ^ 16 - 0) / 1000 * 100
   \<and> \<not> js_gt (profitPercentage (calculateSpread 0 (BFin 1000)
         (BFin (10050000000000000001 / 10 ^ 16))
         (no_options\<lparr>opt_buyFee := Some 0, opt_sellFee := Some 0,
            opt_gasCost := Some (BFin 0)\<rparr>)))
       (JFin (1 / 2))"
  by code_simp

text \<open>
  C5, amended: on finite prices, with a finite gas cost and a total buy cost that is not
  zero, both calculators compute every money-valued field exactly, without any rounding:
  \<^verbatim>\<open>calculateSpread\<close> the total buy cost \<open>b\<cdot>t + b\<cdot>t\<cdot>f\<close>, the total sell proceeds
  \<open>s\<cdot>t - s\<cdot>t\<cdot>g\<close>, the raw profit and the profit after gas, \<^verbatim>\<open>calculateProfit\<close> its
  estimated profit. The percentage field is not the exact quotient: it is the double
  nearest to \<open>d\<close>, where \<open>d\<close> is the quotient of the profit after gas by the total buy cost,
  rounded half up to 20 decimal places, times 100; \<open>d\<close> is within \<open>5 \<times> 10\<^sup>-\<^sup>1\<^sup>9\<close> of the exact
  percentage. This rounding happens in the calculator, before any comparison.
\<close>

theorem calculators_exact_fields_rounded_percentage:
  "(let t = or_default (opt_tradeSize opts) 1;
        f = or_default (opt_buyFee opts) (1 / 1000);
        g = or_default (opt_sellFee opts) (1 / 1000);
        tbc = b * t + b * t * f;
        tsp = s * t - s * t * g;
        pag = tsp - tbc - gas;
        r = calculateSpread now (BFin b) (BFin s) opts
    in or_default (opt_gasCost opts) (BFin (1 / 10)) = BFin gas \<and> tbc \<noteq> 0 \<longrightarrow>
         totalBuyCost r = BFin tbc
         \<and> totalSellProceeds r = BFin tsp
         \<and> gasCost r = BFin gas
         \<and> rawProfit r = BFin (tsp - tbc)
         \<and> profitAfterGas r = BFin pag
         \<and> profitPercentage r = round_double (round_half_up 20 (pag / tbc) * 100)
         \<and> \<bar>round_half_up 20 (pag / tbc) * 100 - pag / tbc * 100\<bar> \<le> 5 / 10 ^ 19)
   \<and> (let rate_buy = (if d = ''dexToCex'' then fees_uniswap_fee else fees_binance_taker);
          rate_sell = (if d = ''dexToCex'' then fees_binance_taker else fees_uniswap_fee);
          cost = b' + rate_buy;
          p = s' - s' * rate_sell - cost - or_default (fees_gas n) (1 / 10);
          r = calculateProfit now' d n bt qt (BFin b') (BFin s')
      in n \<notin> set object_prototype_names \<and> cost \<noteq> 0 \<longrightarrow>
           estimatedProfit r = BFin p
           \<and> profitPercentage r = round_double (round_half_up 20 (p / cost) * 100)
           \<and> \<bar>round_half_up 20 (p / cost) * 100 - p / cost * 100\<bar> \<le> 5 / 10 ^ 19)"
proof (rule conjI)
  show "let t = or_default (opt_tradeSize opts) 1;
        f = or_default (opt_buyFee opts) (1 / 1000);
        g = or_default (opt_sellFee opts) (1 / 1000);
        tbc = b * t + b * t * f;
        tsp = s * t - s * t * g;
        pag = tsp - tbc - gas;
        r = calculateSpread now (BFin b) (BFin s) opts
    in or_default (opt_gasCost opts) (BFin (1 / 10)) = BFin gas \<and> tbc \<noteq> 0 \<longrightarrow>
         totalBuyCost r = BFin tbc
         \<and> totalSellProceeds r = BFin tsp
         \<and> gasCost r = BFin gas
         \<and> rawProfit r = BFin (tsp - tbc)
         \<and> profitAfterGas r = BFin pag
         \<and> profitPercentage r = round_double (round_half_up 20 (pag / tbc) * 100)
         \<and> \<bar>round_half_up 20 (pag / tbc) * 100 - pag / tbc * 100\<bar> \<le> 5 / 10 ^ 19"
  proof -
    {
      assume gas: "or_default (opt_gasCost opts) (BFin (1 / 10)) = BFin gas"
        and nz: "b * or_default (opt_tradeSize opts) 1
          + b * or_default (opt_tradeSize opts) 1 * or_default (opt_buyFee opts) (1 / 1000) \<noteq> 0"
      let ?tbc = "b * or_default (opt_tradeSize opts) 1
          + b * or_default (opt_tradeSize opts) 1 * or_default (opt_buyFee opts) (1 / 1000)"
      let ?tsp = "s * or_default (opt_tradeSize opts) 1
          - s * or_default (opt_tradeSize opts) 1 * or_default (opt_sellFee opts) (1 / 1000)"
      let ?r = "calculateSpread now (BFin b) (BFin s) opts"
      have 1: "totalBuyCost ?r = BFin ?tbc"
        by (simp add: calculateSpread_fields [OF gas] Let_def)
      have 2: "totalSellProceeds ?r = BFin ?tsp"
        by (simp add: calculateSpread_fields [OF gas] Let_def)
      have 3: "gasCost ?r = BFin gas"
        by (simp add: calculateSpread_fields [OF gas] Let_def)
      have 4: "rawProfit ?r = BFin (?tsp - ?tbc)"
        by (simp add: calculateSpread_fields [OF gas] Let_def)
      have 5: "profitAfterGas ?r = BFin (?tsp - ?tbc - gas)"
        by (simp add: calculateSpread_fields [OF gas] Let_def)
      have 6: "profitPercentage ?r
          = round_double (round_half_up 20 ((?tsp - ?tbc - gas) / ?tbc) * 100)"
        using nz by (simp add: calculateSpread_fields [OF gas] Let_def dividedBy_def)
      have 7: "\<bar>round_half_up 20 ((?tsp - ?tbc - gas) / ?tbc) * 100
          - (?tsp - ?tbc - gas) / ?tbc * 100\<bar> \<le> 5 / 10 ^ 19"
        by (rule percentage_rounding_error)
      note 1 2 3 4 5 6 7
    }
    then show ?thesis unfolding Let_def by blast
  qed
next
  show "let rate_buy = (if d = ''dexToCex'' then fees_uniswap_fee else fees_binance_taker);
          rate_sell = (if d = ''dexToCex'' then fees_binance_taker else fees_uniswap_fee);
          cost = b' + rate_buy;
          p = s' - s' * rate_sell - cost - or_default (fees_gas n) (1 / 10);
          r = calculateProfit now' d n bt qt (BFin b') (BFin s')
      in n \<notin> set object_prototype_names \<and> cost \<noteq> 0 \<longrightarrow>
           estimatedProfit r = BFin p
           \<and> profitPercentage r = round_double (round_half_up 20 (p / cost) * 100)
           \<and> \<bar>round_half_up 20 (p / cost) * 100 - p / cost * 100\<bar> \<le> 5 / 10 ^ 19"
  proof -
    {
      assume n: "n \<notin> set object_prototype_names"
        and nz: "b' + (if d = ''dexToCex'' then fees_uniswap_fee else fees_binance_taker) \<noteq> 0"
      let ?cost = "b' + (if d = ''dexToCex'' then fees_uniswap_fee else fees_binance_taker)"
      let ?p = "s' - s' * (if d = ''dexToCex'' then fees_binance_taker else fees_uniswap_fee)
          - ?cost - or_default (fees_gas n) (1 / 10)"
      let ?r = "calculateProfit now' d n bt qt (BFin b') (BFin s')"
      have 1: "estimatedProfit ?r = BFin ?p"
        by (simp add: calculateProfit_fields [OF n] Let_def)
      have 2: "profitPercentage ?r = round_double (round_half_up 20 (?p / ?cost) * 100)"
        using nz by (simp add: calculateProfit_fields [OF n] Let_def dividedBy_def)
      have 3: "\<bar>round_half_up 20 (?p / ?cost) * 100 - ?p / ?cost * 100\<bar> \<le> 5 / 10 ^ 19"
        by (rule percentage_rounding_error)
      note 1 2 3
    }
    then show ?thesis unfolding Let_def by blast
  qed
qed

theorem calculators_exact_fields_rounded_percentage_witness:
  "totalBuyCost (calculateSpread 0 (BFin 3) (BFin 4) no_options) = BFin (3003 / 1000)
   \<and> totalSellProceeds (calculateSpread 0 (BFin 3) (BFin 4) no_options) = BFin (3996 / 1000)
   \<and> rawProfit (calculateSpread 0 (BFin 3) (BFin 4) no_options) = BFin (993 / 1000)
   \<and> profitAfterGas (calculateSpread 0 (BFin 3) (BFin 4) no_options) = BFin (893 / 1000)
   \<and> profitPercentage (calculateSpread 0 (BFin 3) (BFin 4) no_options)
       = round_double (round_half_up 20 (893 / 3003) * 100)
   \<and> estimatedProfit (calculateProfit 0 ''cexToDex'' ''optimism'' ''WETH'' ''USDT''
        (BFin 100) (BFin 101)) = BFin (596 / 1000)
   \<and> profitPercentage (calculateProfit 0 ''cexToDex'' ''optimism'' ''WETH'' ''USDT''
        (BFin 100) (BFin 101)) = round_double (round_half_up 20 (596 / 100001) * 100)"
  using calculators_exact_fields_rounded_percentage
    [where opts = no_options and gas = "1 / 10" and b = 3 and s = 4 and now = 0
       and d = "''cexToDex''" and n = "''optimism''" and b' = 100 and s' = 101 and now' = 0
       and bt = "''WETH''" and qt = "''USDT''"]
  by (simp add: Let_def no_options_def or_default_def fees_gas_def fees_binance_taker_def
      fees_uniswap_fee_def object_prototype_names_def)

text \<open>
  C6, as stated: two calls with the same arguments give identical records, every field
  being a function of the arguments alone. The \<^verbatim>\<open>timestamp\<close> field is the clock reading,
  so two calls at different instants differ.
\<close>

theorem calculateSpread_timestamp_counterexample:
  "calculateSpread 1 (BFin 100) (BFin 101) no_options
     \<noteq> calculateSpread 2 (BFin 100) (BFin 101) no_options"
  by (simp add: calculateSpread_def Let_def)

text \<open>
  C6, amended: two calls with the same arguments agree on every field other than
  \<^verbatim>\<open>timestamp\<close>, which is the clock reading of the call; this holds for both calculators.
\<close>

theorem calculators_deterministic_up_to_timestamp:
  "calculateSpread t1 bp sp opts = (calculateSpread t2 bp sp opts)\<lparr>timestamp := t1\<rparr>
   \<and> calculateProfit t1 d n bt qt bp sp = (calculateProfit t2 d n bt qt bp sp)\<lparr>timestamp := t1\<rparr>"
  by (simp add: calculateSpread_def calculateProfit_def Let_def)

text \<open>
  C7, as stated: a total buy cost of zero makes the computation fail with an explicit
  error. Neither calculator tests the divisor: with a buy price of 0 and a sell price of 1
  \<^verbatim>\<open>calculateSpread\<close> returns a record whose percentage is \<^verbatim>\<open>Infinity\<close>.
\<close>

theorem calculateSpread_zero_cost_counterexample:
  "totalBuyCost (calculateSpread 0 (BFin 0) (BFin 1) no_options) = BFin 0
   \<and> profitPercentage (calculateSpread 0 (BFin 0) (BFin 1) no_options) = JPInf"
  by code_simp

lemma div_by_zero_not_finite: "dividedBy x (BFin 0) \<in> {BNaN, BPInf, BNInf}"
  by (cases x) (simp_all add: dividedBy_def)

lemma times_100_not_finite:
  "x \<in> {BNaN, BPInf, BNInf} \<Longrightarrow> toNumber (multipliedBy x (BFin 100)) \<in> {JNaN, JPInf, JNInf}"
  by auto

lemma round_double_not_NaN: "round_double r \<noteq> JNaN"
  by (simp add: round_double_def Let_def)

lemma calculateProfit_percentage:
  "profitPercentage (calculateProfit now d n bt qt (BFin b) sp) =
     toNumber (multipliedBy
       (dividedBy (estimatedProfit (calculateProfit now d n bt qt (BFin b) sp))
          (BFin (b + (if d = ''dexToCex'' then fees_uniswap_fee else fees_binance_taker))))
       (BFin 100))"
  by (cases "d = ''dexToCex''") (simp_all add: calculateProfit_def Let_def)

text \<open>
  C7, amended: when the total buy cost is zero, neither calculator raises a
  malformed-input error: \<^verbatim>\<open>calculateSpread\<close> and \<^verbatim>\<open>calculateProfit\<close> return a record whose
  percentage is \<^verbatim>\<open>Infinity\<close>, \<^verbatim>\<open>-Infinity\<close> or \<^verbatim>\<open>NaN\<close>. On finite prices and a finite gas
  cost with a total buy cost other than zero, in particular a positive one, they return a
  record whose percentage is a number, never \<^verbatim>\<open>NaN\<close>. The total buy cost of
  \<^verbatim>\<open>calculateProfit\<close> is the buy price plus the fee it charges on the buying venue.
\<close>

theorem zero_buy_cost_percentage_not_finite:
  "(totalBuyCost (calculateSpread now bp sp opts) = BFin 0 \<longrightarrow>
      profitPercentage (calculateSpread now bp sp opts) \<in> {JNaN, JPInf, JNInf})
   \<and> (totalBuyCost (calculateSpread now (BFin b) (BFin s) opts) \<noteq> BFin 0
        \<and> or_default (opt_gasCost opts) (BFin (1 / 10)) = BFin gas \<longrightarrow>
      profitPercentage (calculateSpread now (BFin b) (BFin s) opts) \<noteq> JNaN)
   \<and> (b' + (if d = ''dexToCex'' then fees_uniswap_fee else fees_binance_taker) = 0 \<longrightarrow>
      profitPercentage (calculateProfit now d n bt qt (BFin b') sp) \<in> {JNaN, JPInf, JNInf})
   \<and> (b' + (if d = ''dexToCex'' then fees_uniswap_fee else fees_binance_taker) \<noteq> 0
        \<and> n \<notin> set object_prototype_names \<longrightarrow>
      profitPercentage (calculateProfit now d n bt qt (BFin b') (BFin s)) \<noteq> JNaN)"
proof (intro conjI impI)
  assume z: "totalBuyCost (calculateSpread now bp sp opts) = BFin 0"
  show "profitPercentage (calculateSpread now bp sp opts) \<in> {JNaN, JPInf, JNInf}"
    using z times_100_not_finite [OF div_by_zero_not_finite]
    by (simp add: calculateSpread_def Let_def)
next
  assume "totalBuyCost (calculateSpread now (BFin b) (BFin s) opts) \<noteq> BFin 0
        \<and> or_default (opt_gasCost opts) (BFin (1 / 10)) = BFin gas"
  then have nz: "totalBuyCost (calculateSpread now (BFin b) (BFin s) opts) \<noteq> BFin 0"
    and gas: "or_default (opt_gasCost opts) (BFin (1 / 10)) = BFin gas" by simp_all
  from nz show "profitPercentage (calculateSpread now (BFin b) (BFin s) opts) \<noteq> JNaN"
    by (simp add: calculateSpread_fields [OF gas] Let_def dividedBy_def round_double_not_NaN)
next
  assume z: "b' + (if d = ''dexToCex'' then fees_uniswap_fee else fees_binance_taker) = 0"
  have "profitPercentage (calculateProfit now d n bt qt (BFin b') sp)
      = toNumber (multipliedBy (dividedBy (estimatedProfit
          (calculateProfit now d n bt qt (BFin b') sp)) (BFin 0)) (BFin 100))"
    by (simp only: calculateProfit_percentage z)
  then show "profitPercentage (calculateProfit now d n bt qt (BFin b') sp)
      \<in> {JNaN, JPInf, JNInf}"
    using times_100_not_finite [OF div_by_zero_not_finite] by simp
next
  assume "b' + (if d = ''dexToCex'' then fees_uniswap_fee else fees_binance_taker) \<noteq> 0
        \<and> n \<notin> set object_prototype_names"
  then show "profitPercentage (calculateProfit now d n bt qt (BFin b') (BFin s)) \<noteq> JNaN"
    by (simp add: calculateProfit_fields Let_def dividedBy_def round_double_not_NaN)
qed

theorem zero_buy_cost_percentage_not_finite_witness:
  "(totalBuyCost (calculateSpread 0 (BFin 0) (BFin 1) no_options) = BFin 0
      \<and> profitPercentage (calculateSpread 0 (BFin 0) (BFin 1) no_options) \<in> {JNaN, JPInf, JNInf})
   \<and> (totalBuyCost (calculateSpread 0 (BFin 3) (BFin 4) no_options) \<noteq> BFin 0
      \<and> profitPercentage (calculateSpread 0 (BFin 3) (BFin 4) no_options) \<noteq> JNaN)
   \<and> profitPercentage (calculateProfit 0 ''cexToDex'' ''optimism'' ''WETH'' ''USDT''
        (BFin (- 1 / 1000)) (BFin 101)) \<in> {JNaN, JPInf, JNInf}
   \<and> profitPercentage (calculateProfit 0 ''cexToDex'' ''optimism'' ''WETH'' ''USDT''
        (BFin 100) (BFin 101)) \<noteq> JNaN"
proof -
  have a: "totalBuyCost (calculateSpread 0 (BFin 0) (BFin 1) no_options) = BFin 0"
    by code_simp
  have b: "totalBuyCost (calculateSpread 0 (BFin 3) (BFin 4) no_options) \<noteq> BFin 0"
    by code_simp
  have g: "or_default (opt_gasCost no_options) (BFin (1 / 10)) = BFin (1 / 10)"
    by code_simp
  have n: "''optimism'' \<notin> set object_prototype_names"
    by code_simp
  have c: "- 1 / 1000 + (if ''cexToDex'' = ''dexToCex'' then fees_uniswap_fee
       else fees_binance_taker) = 0"
    by code_simp
  have e: "100 + (if ''cexToDex'' = ''dexToCex'' then fees_uniswap_fee
       else fees_binance_taker) \<noteq> 0"
    by code_simp
  from zero_buy_cost_percentage_not_finite
    [where now = 0 and bp = "BFin 0" and sp = "BFin 1" and opts = no_options] a
  have "profitPercentage (calculateSpread 0 (BFin 0) (BFin 1) no_options) \<in> {JNaN, JPInf, JNInf}"
    by blast
  moreover from zero_buy_cost_percentage_not_finite
    [where now = 0 and b = 3 and s = 4 and opts = no_options and gas = "1 / 10"] b g
  have "profitPercentage (calculateSpread 0 (BFin 3) (BFin 4) no_options) \<noteq> JNaN"
    by blast
  moreover from zero_buy_cost_percentage_not_finite
    [where now = 0 and d = "''cexToDex''" and n = "''optimism''" and bt = "''WETH''"
       and qt = "''USDT''" and b' = "- 1 / 1000" and sp = "BFin 101"] c
  have "profitPercentage (calculateProfit 0 ''cexToDex'' ''optimism'' ''WETH'' ''USDT''
        (BFin (- 1 / 1000)) (BFin 101)) \<in> {JNaN, JPInf, JNInf}"
    by blast
  moreover from zero_buy_cost_percentage_not_finite
    [where now = 0 and d = "''cexToDex''" and n = "''optimism''" and bt = "''WETH''"
       and qt = "''USDT''" and b' = 100 and s = 101] e n
  have "profitPercentage (calculateProfit 0 ''cexToDex'' ''optimism'' ''WETH'' ''USDT''
        (BFin 100) (BFin 101)) \<noteq> JNaN"
    by blast
  ultimately show ?thesis using a b by blast
qed

section \<open>Properties of the ranking\<close>

lemma quotient_of_pos:
  assumes "0 < x" and "quotient_of x = (p, q)"
  shows "0 < p" and "0 < q" and "x = of_int p / of_int q"
proof -
  show q: "0 < q" using assms(2) by (rule quotient_of_denom_pos)
  show x: "x = of_int p / of_int q" using assms(2) by (rule quotient_of_div)
  from assms(1) x q show "0 < p" by (simp add: zero_less_divide_iff)
qed

lemma floor_log2_lower:
  assumes "0 < x"
  shows "2 powi (floor_log2 x) \<le> x"
proof -
  obtain p q where pq: "quotient_of x = (p, q)" by (cases "quotient_of x")
  from quotient_of_pos[OF assms pq] have p: "0 < p" and q: "0 < q"
    and x: "x = of_int p / of_int q" by auto
  let ?e0 = "bitlen p - bitlen q"
  show ?thesis
  proof (cases "2 powi ?e0 \<le> x")
    case True
    then show ?thesis by (simp add: floor_log2_def pq Let_def)
  next
    case False
    have bp: "(2::int) ^ nat (bitlen p - 1) \<le> p" using bitlen_bounds[OF p] by simp
    have bq: "q < 2 ^ nat (bitlen q)" using bitlen_bounds[OF q] by simp
    have "bitlen p \<noteq> 0" using p by (simp add: bitlen_eq_zero_iff)
    with bitlen_nonneg[of p] have lp: "0 < bitlen p" by linarith
    have lq: "0 \<le> bitlen q" by (rule bitlen_nonneg)
    have "(2::rat) powi (bitlen p - 1) = 2 ^ nat (bitlen p - 1)"
      using lp by (simp add: power_int_def)
    also have "\<dots> = of_int (2 ^ nat (bitlen p - 1))" by simp
    also have "\<dots> \<le> of_int p" using bp by (simp only: of_int_le_iff)
    finally have n: "(2::rat) powi (bitlen p - 1) \<le> of_int p" .
    have "(of_int q :: rat) \<le> of_int (2 ^ nat (bitlen q))"
      using bq by (simp only: of_int_le_iff)
    also have "\<dots> = 2 powi (bitlen q)" using lq by (simp add: power_int_def)
    finally have d: "(of_int q :: rat) \<le> 2 powi (bitlen q)" .
    have qpos: "(0::rat) < of_int q" using q by simp
    have "(2::rat) powi (?e0 - 1) = 2 powi (bitlen p - 1) / 2 powi (bitlen q)"
      by (simp add: power_int_diff)
    also have "\<dots> \<le> of_int p / 2 powi (bitlen q)"
      using n by (intro divide_right_mono) simp_all
    also have "\<dots> \<le> of_int p / of_int q"
      using d qpos p by (intro divide_left_mono) simp_all
    finally have "(2::rat) powi (?e0 - 1) \<le> x" using x by simp
    with False show ?thesis by (simp add: floor_log2_def pq Let_def)
  qed
qed

lemma round_even_ge_1:
  assumes "1 / 2 < r"
  shows "1 \<le> round_even r"
proof -
  have f: "0 \<le> \<lfloor>r\<rfloor>" using assms by (simp add: zero_le_floor)
  show ?thesis
  proof (cases "1 \<le> r")
    case True
    then have "1 \<le> \<lfloor>r\<rfloor>" by (simp add: le_floor_iff)
    then show ?thesis by (simp add: round_even_def Let_def)
  next
    case False
    then have "\<lfloor>r\<rfloor> = 0" using assms by (simp add: floor_eq_iff)
    then show ?thesis using assms by (simp add: round_even_def Let_def)
  qed
qed

lemma subnormal_scale_pos: "0 < subnormal_scale"
  by (simp add: subnormal_scale_def)

lemma powi_subnormal_scale: "(2::rat) powi q * subnormal_scale = 2 powi (q + 1074)"
proof -
  have s: "subnormal_scale = 2 powi 1074"
    by (simp only: subnormal_scale_def power_int_numeral)
  have "(2::rat) powi (q + 1074) = 2 powi q * 2 powi 1074"
    by (rule power_int_add) simp
  then show ?thesis unfolding s by (rule sym)
qed

lemma divide_by_inverse_pair:
  fixes p s x :: rat
  assumes "p * s = 1"
  shows "x / p = x * s"
proof -
  from assms have nz: "p \<noteq> 0" by auto
  have "x / p = x * (p * s) / p" using assms by simp
  also have "\<dots> = x * s" using nz by simp
  finally show ?thesis .
qed

lemma round_double_sign:
  assumes "1 \<le> \<bar>z\<bar> * subnormal_scale"
  shows "js_gt (round_double z) (JFin 0) = (0 < z)"
proof -
  from assms have nz: "z \<noteq> 0" by auto
  then have a: "0 < \<bar>z\<bar>" by simp
  let ?e = "floor_log2 \<bar>z\<bar>"
  let ?q = "max (?e - 52) (- 1074)"
  let ?m = "round_even (\<bar>z\<bar> / 2 powi ?q)"
  have "1 / 2 < \<bar>z\<bar> / 2 powi ?q"
  proof (cases "?e - 52 \<le> - 1074")
    case True
    then have qeq: "?q = - 1074" by simp
    have "(2::rat) powi (- 1074) * subnormal_scale = 1"
      by (simp only: powi_subnormal_scale) simp
    then have "\<bar>z\<bar> / 2 powi (- 1074) = \<bar>z\<bar> * subnormal_scale"
      by (rule divide_by_inverse_pair)
    then have "\<bar>z\<bar> / 2 powi ?q = \<bar>z\<bar> * subnormal_scale"
      by (simp only: qeq)
    with assms show ?thesis by linarith
  next
    case False
    then have q: "?q = ?e - 52" by simp
    have "(2::rat) powi ?e \<le> \<bar>z\<bar>" by (rule floor_log2_lower[OF a])
    then have "(2::rat) powi ?e / 2 powi (?e - 52) \<le> \<bar>z\<bar> / 2 powi (?e - 52)"
      by (intro divide_right_mono) simp_all
    moreover have "(2::rat) powi ?e / 2 powi (?e - 52) = 2 powi 52"
      by (simp add: power_int_diff)
    ultimately have "(2::rat) powi 52 \<le> \<bar>z\<bar> / 2 powi ?q" using q by simp
    moreover have "(1 / 2 :: rat) < 2 powi 52" by simp
    ultimately show ?thesis by linarith
  qed
  then have m: "1 \<le> ?m" by (rule round_even_ge_1)
  have pw: "(0::rat) < 2 powi ?q" by simp
  have mp: "(0::rat) < of_int ?m * 2 powi ?q"
    using m pw by (intro mult_pos_pos) simp_all
  show ?thesis
  proof (cases "0 < z")
    case True
    then have "sgn z * of_int ?m * 2 powi ?q = of_int ?m * 2 powi ?q" by simp
    with mp True nz show ?thesis by (simp add: round_double_def Let_def)
  next
    case False
    with nz have neg: "z < 0" by simp
    then have "sgn z * of_int ?m * 2 powi ?q = - (of_int ?m * 2 powi ?q)" by simp
    with mp have "\<not> 0 < sgn z * of_int ?m * 2 powi ?q" by simp
    with False nz show ?thesis by (simp add: round_double_def Let_def)
  qed
qed

lemma is_double_round_double: "is_double (round_double r)"
proof (cases "round_double r")
  case (JFin v)
  show ?thesis
  proof (cases "r = 0")
    case True
    then show ?thesis by (simp add: round_double_def is_double_def)
  next
    case False
    let ?e = "floor_log2 \<bar>r\<bar>"
    let ?q = "max (?e - 52) (- 1074)"
    let ?m = "round_even (\<bar>r\<bar> / 2 powi ?q)"
    from JFin False have v: "v = sgn r * of_int ?m * 2 powi ?q"
      by (simp add: round_double_def Let_def split: if_splits)
    have q: "0 \<le> ?q + 1074" by simp
    have "(2::rat) powi ?q * subnormal_scale = 2 powi (?q + 1074)"
      by (rule powi_subnormal_scale)
    also have "\<dots> = 2 ^ nat (?q + 1074)" using q by (simp add: power_int_def)
    finally have pw: "(2::rat) powi ?q * subnormal_scale = of_int (2 ^ nat (?q + 1074))" by simp
    have sg: "sgn r = of_int (if 0 < r then 1 else -1)" using False by (simp add: sgn_if)
    have "v * subnormal_scale = sgn r * of_int ?m * (2 powi ?q * subnormal_scale)"
      by (simp add: v)
    also have "\<dots> = of_int ((if 0 < r then 1 else -1) * ?m * 2 ^ nat (?q + 1074))"
      by (simp only: pw sg of_int_mult)
    finally have "v * subnormal_scale
        = of_int ((if 0 < r then 1 else -1) * ?m * 2 ^ nat (?q + 1074))" .
    then have "of_int \<lfloor>v * subnormal_scale\<rfloor> = v * subnormal_scale"
      by (simp only: floor_of_int)
    then show ?thesis using JFin by (simp add: is_double_def)
  qed
qed (simp_all add: is_double_def)

lemma is_double_toNumber: "is_double (toNumber x)"
  by (cases x) (simp_all add: is_double_round_double, simp_all add: is_double_def)

lemma double_diff_ge:
  assumes "of_int \<lfloor>a * c\<rfloor> = a * c" and "of_int \<lfloor>b * c\<rfloor> = b * c"
    and "a \<noteq> (b::rat)" and "0 < c"
  shows "1 \<le> \<bar>a - b\<bar> * c"
proof -
  let ?ka = "\<lfloor>a * c\<rfloor>" and ?kb = "\<lfloor>b * c\<rfloor>"
  have "?ka \<noteq> ?kb"
  proof
    assume "?ka = ?kb"
    then have "a * c = b * c" using assms(1,2) by metis
    then show False using assms(3,4) by simp
  qed
  then have "1 \<le> \<bar>?ka - ?kb\<bar>" by linarith
  then have "(1::rat) \<le> of_int \<bar>?ka - ?kb\<bar>" by (simp only: of_int_1_le_iff)
  also have "\<dots> = \<bar>of_int ?ka - of_int ?kb\<bar>" by simp
  also have "\<dots> = \<bar>a * c - b * c\<bar>" by (simp only: assms(1,2))
  also have "\<dots> = \<bar>(a - b) * c\<bar>" by (simp only: left_diff_distrib)
  also have "\<dots> = \<bar>a - b\<bar> * c" using assms(4) by (simp add: abs_mult)
  finally show ?thesis .
qed

lemma js_minus_gt_zero:
  assumes "is_double x" and "is_double y"
  shows "js_gt (js_minus y x) (JFin 0) = js_gt y x"
proof (cases x; cases y)
  fix a b assume xy: "x = JFin a" "y = JFin b"
  show ?thesis
  proof (cases "a = b")
    case True
    then show ?thesis using xy by (simp add: round_double_def)
  next
    case False
    from assms xy have "of_int \<lfloor>b * subnormal_scale\<rfloor> = b * subnormal_scale"
      and "of_int \<lfloor>a * subnormal_scale\<rfloor> = a * subnormal_scale"
      by (simp_all add: is_double_def)
    then have "1 \<le> \<bar>b - a\<bar> * subnormal_scale"
      using False subnormal_scale_pos by (intro double_diff_ge) auto
    from round_double_sign[OF this] show ?thesis using xy by simp
  qed
qed simp_all

lemma by_profit_desc_gt:
  assumes "is_double (profitPercentage a)" and "is_double (profitPercentage b)"
  shows "js_gt (by_profit_desc a b) (JFin 0) = js_gt (profitPercentage b) (profitPercentage a)"
  using assms by (simp add: by_profit_desc_def js_minus_gt_zero)

lemma mset_js_insert: "mset (js_insert c x ys) = add_mset x (mset ys)"
  by (induction ys) simp_all

lemma mset_js_sort: "mset (js_sort c xs) = mset xs"
  by (induction xs) (simp_all add: js_sort_def mset_js_insert)

lemma set_js_sort: "set (js_sort c xs) = set xs"
  by (metis mset_js_sort set_mset_mset)

lemma js_sort_Cons: "js_sort c (x # xs) = js_insert c x (js_sort c xs)"
  by (simp add: js_sort_def)

lemma js_sort_Nil: "js_sort c [] = []"
  by (simp add: js_sort_def)

lemma js_gt_neq: "js_gt y x \<Longrightarrow> x \<noteq> y"
  by (cases x; cases y) auto

lemma filter_js_insert_profit:
  assumes "is_double (profitPercentage x)"
    and "\<forall>y \<in> set ys. is_double (profitPercentage y)"
  shows "filter (\<lambda>o'. profitPercentage o' = k) (js_insert by_profit_desc x ys)
       = filter (\<lambda>o'. profitPercentage o' = k) (x # ys)"
  using assms
proof (induction ys)
  case Nil
  then show ?case by simp
next
  case (Cons y ys)
  show ?case
  proof (cases "js_gt (by_profit_desc x y) (JFin 0)")
    case True
    with Cons.prems have "js_gt (profitPercentage y) (profitPercentage x)"
      by (simp add: by_profit_desc_gt)
    then have "profitPercentage x \<noteq> profitPercentage y" by (rule js_gt_neq)
    with True Cons show ?thesis by auto
  next
    case False
    then show ?thesis by simp
  qed
qed

lemma js_sort_stable:
  assumes "\<forall>y \<in> set xs. is_double (profitPercentage y)"
  shows "filter (\<lambda>o'. profitPercentage o' = k) (js_sort by_profit_desc xs)
       = filter (\<lambda>o'. profitPercentage o' = k) xs"
  using assms
proof (induction xs)
  case Nil
  then show ?case by (simp add: js_sort_Nil)
next
  case (Cons x xs)
  then have "\<forall>y \<in> set (js_sort by_profit_desc xs). is_double (profitPercentage y)"
    by (simp add: set_js_sort)
  with Cons show ?case by (simp add: js_sort_Cons filter_js_insert_profit)
qed

lemma js_ge_not_gt: "x \<noteq> JNaN \<Longrightarrow> y \<noteq> JNaN \<Longrightarrow> js_ge x y = (\<not> js_gt y x)"
  by (cases x; cases y) auto

lemma js_ge_trans: "js_ge x y \<Longrightarrow> js_ge y z \<Longrightarrow> js_ge x z"
  by (cases x; cases y; cases z) auto

lemma js_gt_imp_ge: "js_gt x y \<Longrightarrow> js_ge x y"
  by (cases x; cases y) auto

lemma ranked_js_insert:
  assumes "ranked ys" and "is_double (profitPercentage x)" and "profitPercentage x \<noteq> JNaN"
    and "\<forall>y \<in> set ys. is_double (profitPercentage y) \<and> profitPercentage y \<noteq> JNaN"
  shows "ranked (js_insert by_profit_desc x ys)"
  using assms
proof (induction ys)
  case Nil
  then show ?case by (simp add: ranked_def)
next
  case (Cons y ys)
  from Cons.prems have ry: "ranked ys" and yall: "\<forall>z \<in> set ys. js_ge (profitPercentage y) (profitPercentage z)"
    by (simp_all add: ranked_def)
  show ?case
  proof (cases "js_gt (by_profit_desc x y) (JFin 0)")
    case True
    with Cons.prems have gt: "js_gt (profitPercentage y) (profitPercentage x)"
      by (simp add: by_profit_desc_gt)
    have ih: "ranked (js_insert by_profit_desc x ys)"
      using Cons.IH ry Cons.prems by simp
    have "\<forall>z \<in> set (js_insert by_profit_desc x ys). js_ge (profitPercentage y) (profitPercentage z)"
    proof
      fix z assume "z \<in> set (js_insert by_profit_desc x ys)"
      then have "z \<in># mset (js_insert by_profit_desc x ys)" by simp
      then have "z = x \<or> z \<in> set ys" by (simp add: mset_js_insert)
      then show "js_ge (profitPercentage y) (profitPercentage z)"
        using gt yall by (auto intro: js_gt_imp_ge)
    qed
    with ih True show ?thesis by (simp add: ranked_def)
  next
    case False
    with Cons.prems have "\<not> js_gt (profitPercentage y) (profitPercentage x)"
      by (simp add: by_profit_desc_gt)
    with Cons.prems have xy: "js_ge (profitPercentage x) (profitPercentage y)"
      by (simp add: js_ge_not_gt)
    then have "\<forall>z \<in> set ys. js_ge (profitPercentage x) (profitPercentage z)"
      using yall by (blast intro: js_ge_trans)
    with xy False Cons.prems show ?thesis by (simp add: ranked_def)
  qed
qed

lemma ranked_js_sort:
  assumes "\<forall>y \<in> set xs. is_double (profitPercentage y) \<and> profitPercentage y \<noteq> JNaN"
  shows "ranked (js_sort by_profit_desc xs)"
  using assms
proof (induction xs)
  case Nil
  then show ?case by (simp add: js_sort_Nil ranked_def)
next
  case (Cons x xs)
  then show ?case by (simp add: js_sort_Cons ranked_js_insert set_js_sort)
qed


section \<open>Properties of the scans\<close>

lemma scanNetworks_filter:
  "scanNetworks w cfg b q nets opps st =
     (opps @ filter profitable (fst (computedNetworks w cfg b q nets st)),
      snd (computedNetworks w cfg b q nets st))"
proof (induction nets arbitrary: opps st)
  case Nil
  then show ?case by simp
next
  case (Cons n nets)
  obtain name provider where n: "n = (name, provider)" by (cases n)
  show ?case
    unfolding n
    by (simp add: Cons.IH Let_def profitable_def split: option.splits prod.splits)
qed

lemma scanPairs_filter:
  "scanPairs w cfg pairs opps st =
     (opps @ filter profitable (fst (computedPairs w cfg pairs st)),
      snd (computedPairs w cfg pairs st))"
proof (induction pairs arbitrary: opps st)
  case Nil
  then show ?case by simp
next
  case (Cons p pairs)
  obtain b q where p: "p = (b, q)" by (cases p)
  show ?case
    unfolding p
    by (simp add: Cons.IH scanNetworks_filter split: prod.splits)
qed

lemma is_double_calculateProfit:
  "is_double (profitPercentage (calculateProfit t d n b q bp sp))"
  by (simp add: calculateProfit_def Let_def is_double_toNumber)

lemma is_double_calculateSpread:
  "is_double (profitPercentage (calculateSpread t bp sp opts))"
  by (simp add: calculateSpread_def Let_def is_double_toNumber)

lemma computedNetworks_double:
  "computedNetworks w cfg b q nets st = (xs, st') \<Longrightarrow> y \<in> set xs \<Longrightarrow>
     is_double (profitPercentage y)"
proof (induction nets arbitrary: st xs st')
  case Nil
  then show ?case by simp
next
  case (Cons n nets)
  obtain name provider where n: "n = (name, provider)" by (cases n)
  from Cons.prems show ?case
    unfolding n
    by (auto simp add: is_double_calculateProfit split: option.splits prod.splits if_splits
        dest: Cons.IH)
qed

lemma computedPairs_double:
  "computedPairs w cfg pairs st = (xs, st') \<Longrightarrow> y \<in> set xs \<Longrightarrow>
     is_double (profitPercentage y)"
proof (induction pairs arbitrary: st xs st')
  case Nil
  then show ?case by simp
next
  case (Cons p pairs)
  obtain b q where p: "p = (b, q)" by (cases p)
  from Cons.prems show ?case
    unfolding p
    by (auto split: prod.splits dest: Cons.IH computedNetworks_double)
qed

lemma computedPairs_fst_double:
  "\<forall>y \<in> set (fst (computedPairs w cfg pairs st)). is_double (profitPercentage y)"
  by (metis computedPairs_double prod.collapse)

lemma profitable_not_NaN: "profitable y \<Longrightarrow> profitPercentage y \<noteq> JNaN"
  by (auto simp add: profitable_def)

lemma findArbitrageOpportunities_eq:
  "findArbitrageOpportunities w cfg st =
     (js_sort by_profit_desc (filter profitable (fst (computedPairs w cfg (tradingPairs cfg) st))),
      (snd (computedPairs w cfg (tradingPairs cfg) st))
        \<lparr>opportunities :=
           js_sort by_profit_desc
             (filter profitable (fst (computedPairs w cfg (tradingPairs cfg) st)))\<rparr>)"
  by (simp add: findArbitrageOpportunities_def scanPairs_filter)

lemma executeProfitable_fold:
  "executeProfitable w cfg opps st =
     foldl (\<lambda>s opp. snd (executeArbitrage w cfg opp s)) st (filter (above_threshold cfg) opps)"
  by (induction opps arbitrary: st) (simp_all add: above_threshold_def)


lemma round_double_1_2: "round_double (6 / 5) = JFin (5404319552844595 / 4503599627370496)"
  by code_simp
lemma round_double_3_4: "round_double (17 / 5) = JFin (7656119366529843 / 2251799813685248)"
  by code_simp
lemma round_double_0_9: "round_double (9 / 10) = JFin (8106479329266893 / 9007199254740992)"
  by code_simp

lemma ranking_entry_compare:
  "js_gt (by_profit_desc (ranking_entry p t) (ranking_entry p' t')) (JFin 0)
     = js_gt (toNumber (BFin p')) (toNumber (BFin p))"
proof -
  have "is_double (profitPercentage (ranking_entry p t))"
    and "is_double (profitPercentage (ranking_entry p' t'))"
    by (simp_all add: ranking_entry_def is_double_round_double)
  then show ?thesis by (simp add: by_profit_desc_gt) (simp add: ranking_entry_def)
qed

lemma ranking_example:
  "js_sort by_profit_desc
         [ranking_entry (12 / 10) 1, ranking_entry (34 / 10) 2, ranking_entry (34 / 10) 3,
          ranking_entry (9 / 10) 4]
       = [ranking_entry (34 / 10) 2, ranking_entry (34 / 10) 3, ranking_entry (12 / 10) 1,
          ranking_entry (9 / 10) 4]"
  by (simp add: js_sort_def ranking_entry_compare round_double_1_2 round_double_3_4 round_double_0_9)


lemma js_gt_not_NaN: "js_gt x y \<Longrightarrow> x \<noteq> JNaN"
  by (cases x) auto

lemma evaluateNetworks_rankable:
  assumes "\<forall>y \<in> set acc. is_double (profitPercentage y) \<and> profitPercentage y \<noteq> JNaN"
  shows "\<forall>y \<in> set (evaluateNetworks sg now cp dp bt qt nets k acc).
           is_double (profitPercentage y) \<and> profitPercentage y \<noteq> JNaN"
  using assms
proof (induction nets arbitrary: k acc)
  case Nil
  then show ?case by simp
next
  case (Cons n nets)
  show ?case
  proof (cases "truthy_price (js_get dp n)")
    case None
    with Cons show ?thesis by simp
  next
    case (Some dexPrice)
    show ?thesis
      unfolding evaluateNetworks.simps Some option.case Let_def
      by (rule Cons.IH) (auto simp add: Cons.prems is_double_calculateSpread dest: js_gt_not_NaN)
  qed
qed

text \<open>
  C8. For every scan the returned list is ranked by profit percentage in descending order
  by a stable sort: it is a permutation of the retained entries, the percentage never
  increases along it, and the entries of any one percentage keep their discovery order.
  This holds for the scan of the service, whose result is also the ledger, and for the
  strategy's evaluation; on the percentages 1.2, 3.4, 3.4, 0.9 both 3.4 entries come
  first, in their original order.
\<close>

theorem ranking_descending_stable:
  "ranked (fst (findArbitrageOpportunities w cfg st))
   \<and> filter (\<lambda>opp. profitPercentage opp = k) (fst (findArbitrageOpportunities w cfg st))
       = filter (\<lambda>opp. profitPercentage opp = k) (fst (scanPairs w cfg (tradingPairs cfg) [] st))
   \<and> mset (fst (findArbitrageOpportunities w cfg st))
       = mset (fst (scanPairs w cfg (tradingPairs cfg) [] st))
   \<and> opportunities (snd (findArbitrageOpportunities w cfg st))
       = fst (findArbitrageOpportunities w cfg st)
   \<and> ranked (evaluateArbitrageOpportunities sg now (Some cp) (Some dp) bt qt)
   \<and> filter (\<lambda>opp. profitPercentage opp = k)
         (evaluateArbitrageOpportunities sg now (Some cp) (Some dp) bt qt)
       = filter (\<lambda>opp. profitPercentage opp = k)
           (evaluateNetworks sg now cp dp bt qt (networkPriority sg) 0 [])
   \<and> js_sort by_profit_desc
         [ranking_entry (12 / 10) 1, ranking_entry (34 / 10) 2, ranking_entry (34 / 10) 3,
          ranking_entry (9 / 10) 4]
       = [ranking_entry (34 / 10) 2, ranking_entry (34 / 10) 3, ranking_entry (12 / 10) 1,
          ranking_entry (9 / 10) 4]"
proof -
  let ?computed = "fst (computedPairs w cfg (tradingPairs cfg) st)"
  let ?retained = "filter profitable ?computed"
  have scan: "fst (scanPairs w cfg (tradingPairs cfg) [] st) = ?retained"
    by (simp add: scanPairs_filter)
  have res: "fst (findArbitrageOpportunities w cfg st) = js_sort by_profit_desc ?retained"
    by (simp add: findArbitrageOpportunities_eq)
  have dbl: "\<forall>y \<in> set ?retained. is_double (profitPercentage y) \<and> profitPercentage y \<noteq> JNaN"
    using computedPairs_fst_double[of w cfg "tradingPairs cfg" st]
    by (auto dest: profitable_not_NaN)
  have 1: "ranked (fst (findArbitrageOpportunities w cfg st))"
    unfolding res using dbl by (rule ranked_js_sort)
  have 2: "filter (\<lambda>opp. profitPercentage opp = k) (fst (findArbitrageOpportunities w cfg st))
       = filter (\<lambda>opp. profitPercentage opp = k) (fst (scanPairs w cfg (tradingPairs cfg) [] st))"
    unfolding res scan using dbl by (intro js_sort_stable) blast
  have 3: "mset (fst (findArbitrageOpportunities w cfg st))
       = mset (fst (scanPairs w cfg (tradingPairs cfg) [] st))"
    unfolding res scan by (rule mset_js_sort)
  have 4: "opportunities (snd (findArbitrageOpportunities w cfg st))
       = fst (findArbitrageOpportunities w cfg st)"
    by (simp add: findArbitrageOpportunities_eq)
  let ?found = "evaluateNetworks sg now cp dp bt qt (networkPriority sg) 0 []"
  have ev: "evaluateArbitrageOpportunities sg now (Some cp) (Some dp) bt qt
      = js_sort by_profit_desc ?found"
    by (simp add: evaluateArbitrageOpportunities_def)
  have edbl: "\<forall>y \<in> set ?found. is_double (profitPercentage y) \<and> profitPercentage y \<noteq> JNaN"
    by (rule evaluateNetworks_rankable) simp
  have 5: "ranked (evaluateArbitrageOpportunities sg now (Some cp) (Some dp) bt qt)"
    unfolding ev using edbl by (rule ranked_js_sort)
  have 6: "filter (\<lambda>opp. profitPercentage opp = k)
         (evaluateArbitrageOpportunities sg now (Some cp) (Some dp) bt qt)
       = filter (\<lambda>opp. profitPercentage opp = k) ?found"
    unfolding ev using edbl by (intro js_sort_stable) blast
  have 7: "js_sort by_profit_desc
         [ranking_entry (12 / 10) 1, ranking_entry (34 / 10) 2, ranking_entry (34 / 10) 3,
          ranking_entry (9 / 10) 4]
       = [ranking_entry (34 / 10) 2, ranking_entry (34 / 10) 3, ranking_entry (12 / 10) 1,
          ranking_entry (9 / 10) 4]"
    by (rule ranking_example)
  from 1 2 3 4 5 6 7 show ?thesis by blast
qed

text \<open>
  C2, amended: a computed result is retained in the list a scan returns, and in the
  ledger, exactly when its profit percentage is strictly greater than zero; the
  configured minimum is applied afterwards by the loop, which executes exactly the
  retained entries whose percentage is strictly greater than it, in ranking order.
\<close>

theorem scan_retains_positive_loop_executes_above_threshold:
  "fst (findArbitrageOpportunities w cfg st)
     = js_sort by_profit_desc
         (filter profitable (fst (computedPairs w cfg (tradingPairs cfg) st)))
   \<and> set (fst (findArbitrageOpportunities w cfg st))
     = {opp \<in> set (fst (computedPairs w cfg (tradingPairs cfg) st)). profitable opp}
   \<and> opportunities (snd (findArbitrageOpportunities w cfg st))
     = fst (findArbitrageOpportunities w cfg st)
   \<and> executeProfitable w cfg opps st' =
       foldl (\<lambda>s opp. snd (executeArbitrage w cfg opp s)) st' (filter (above_threshold cfg) opps)"
  by (simp add: findArbitrageOpportunities_eq set_js_sort executeProfitable_fold)


section \<open>Properties of the price lookup\<close>

text \<open>
  Whatever release of the library is installed, one of the two calls that \<^verbatim>\<open>getPrice\<close>
  makes before its first quote raises: the function raises in every run, asks for no
  quote and leaves the state as it was.
\<close>

lemma uniswap_getPrice_raises:
  "\<exists>e. uniswap_getPrice w cfg n b q amount st = (Inl e, st)"
  by (cases "ethers w")
     (auto simp add: uniswap_getPrice_def throw_def bind_def lift_def ethers_parseUnits_def
        ethers_BigNumber_from_def split: sum.splits)

lemma cache_get_absent:
  "cache st key = None \<Longrightarrow> cache_get w key st = (None, st)"
  by (simp add: cache_get_def)

lemma cache_get_fresh:
  assumes "cache st key = Some (v, expiry)" and "\<not> (expiry \<noteq> 0 \<and> expiry < clock w (history st))"
  shows "cache_get w key st = (Some v, st\<lparr>history := history st @ [ClockRead]\<rparr>)"
  using assms by (simp add: cache_get_def read_clock_def)

lemma cache_get_expired:
  assumes "cache st key = Some (v, expiry)" and "expiry \<noteq> 0" and "expiry < clock w (history st)"
  shows "cache_get w key st
     = (None, st\<lparr>history := history st @ [ClockRead], cache := (cache st)(key := None)\<rparr>)"
  using assms by (simp add: cache_get_def read_clock_def)

lemma cache_set_stores:
  "cache (cache_set w key v st) key = Some (v, clock w (history st) + 60000)"
  by (simp add: cache_set_def read_clock_def)

lemma getDexPrice_miss:
  assumes "cache_get w (cacheKey n b q) st = (None, st1)"
  shows "getDexPrice w cfg n b q st = (None, st1)"
proof -
  obtain e where "uniswap_getPrice w cfg n b q (BFin 1) st1 = (Inl e, st1)"
    using uniswap_getPrice_raises by blast
  with assms show ?thesis by (simp add: getDexPrice_def getDexPrice_body_def)
qed

text \<open>
  C9. The claim: the lookup returns the cached value on a hit; on a miss it calls the
  adapter, stores the result under a fixed time to live and returns the fresh value; a
  miss followed by a failure of the adapter yields \<^verbatim>\<open>null\<close>. The code of \<^verbatim>\<open>getDexPrice\<close> is
  written to do so, but the adapter it calls raises in every run, so the lookup never
  returns a fresh value and never stores one. What it does, for every world and state:
  an entry that has not expired is returned (a hit, with one reading of the clock and no
  call of the venue); an entry whose expiry instant lies before the present one is
  deleted and the result is \<^verbatim>\<open>null\<close> (\<open>None\<close>); without an entry the result is \<^verbatim>\<open>null\<close> and
  the state, the cache in particular, is as before.
\<close>

theorem getDexPrice_returns_cached_or_null:
  "(cache st (cacheKey n b q) = Some (v, expiry)
      \<and> \<not> (expiry \<noteq> 0 \<and> expiry < clock w (history st)) \<longrightarrow>
      getDexPrice w cfg n b q st = (Some v, st\<lparr>history := history st @ [ClockRead]\<rparr>))
   \<and> (cache st (cacheKey n b q) = Some (v, expiry)
      \<and> expiry \<noteq> 0 \<and> expiry < clock w (history st) \<longrightarrow>
      getDexPrice w cfg n b q st
        = (None, st\<lparr>history := history st @ [ClockRead],
                     cache := (cache st)(cacheKey n b q := None)\<rparr>))
   \<and> (cache st (cacheKey n b q) = None \<longrightarrow> getDexPrice w cfg n b q st = (None, st))"
proof (intro conjI impI)
  assume "cache st (cacheKey n b q) = Some (v, expiry)
      \<and> \<not> (expiry \<noteq> 0 \<and> expiry < clock w (history st))"
  then show "getDexPrice w cfg n b q st = (Some v, st\<lparr>history := history st @ [ClockRead]\<rparr>)"
    by (simp add: getDexPrice_def getDexPrice_body_def cache_get_fresh)
next
  assume "cache st (cacheKey n b q) = Some (v, expiry)
      \<and> expiry \<noteq> 0 \<and> expiry < clock w (history st)"
  then have "cache_get w (cacheKey n b q) st
     = (None, st\<lparr>history := history st @ [ClockRead],
                  cache := (cache st)(cacheKey n b q := None)\<rparr>)"
    by (simp add: cache_get_expired)
  then show "getDexPrice w cfg n b q st
        = (None, st\<lparr>history := history st @ [ClockRead],
                     cache := (cache st)(cacheKey n b q := None)\<rparr>)"
    by (rule getDexPrice_miss)
next
  assume "cache st (cacheKey n b q) = None"
  then have "cache_get w (cacheKey n b q) st = (None, st)" by (rule cache_get_absent)
  then show "getDexPrice w cfg n b q st = (None, st)" by (rule getDexPrice_miss)
qed

section \<open>Quantity normalisation\<close>

lemma round_down_pos:
  assumes "0 < (x::rat)"
  shows "round_down x = of_int \<lfloor>x\<rfloor>"
  using assms by (simp add: round_down_def)

text \<open>
  C10, amended: for a symbol whose loaded step size is a positive number and for a
  positive quantity, \<^verbatim>\<open>normalizeQuantity\<close> returns the quantity rounded down to an integer
  multiple of the step size (the result is at most the input and less than one step below
  it); for a symbol with no loaded information it raises \<^verbatim>\<open>Symbol info not found\<close>, unless
  the symbol is the name of a member that the table inherits from \<^verbatim>\<open>Object.prototype\<close>, for
  which it returns \<^verbatim>\<open>NaN\<close>.
\<close>

theorem normalizeQuantity_rounds_down_to_step:
  "(symbolInfo_stepSize w symbol = Some (BFin s) \<and> 0 < s \<and> 0 < q \<longrightarrow>
      normalizeQuantity w symbol (BFin q) = Inr (BFin (of_int \<lfloor>q / s\<rfloor> * s))
      \<and> of_int \<lfloor>q / s\<rfloor> * s \<le> q \<and> q - of_int \<lfloor>q / s\<rfloor> * s < s)
   \<and> (symbolInfo_stepSize w symbol = None \<and> symbol \<notin> set object_prototype_names \<longrightarrow>
      normalizeQuantity w symbol quantity = Inl (SymbolInfoNotFound symbol))
   \<and> (symbolInfo_stepSize w symbol = None \<and> symbol \<in> set object_prototype_names \<longrightarrow>
      normalizeQuantity w symbol quantity = Inr BNaN)"
proof (intro conjI impI)
  assume a: "symbolInfo_stepSize w symbol = Some (BFin s) \<and> 0 < s \<and> 0 < q"
  then have s: "0 < s" and q: "0 < q" by simp_all
  then have "0 < q / s" by simp
  then have "round_down (q / s) = of_int \<lfloor>q / s\<rfloor>" by (rule round_down_pos)
  with a s show "normalizeQuantity w symbol (BFin q) = Inr (BFin (of_int \<lfloor>q / s\<rfloor> * s))"
    by (simp add: normalizeQuantity_def js_get_def dividedToIntegerBy_def)
  have "of_int \<lfloor>q / s\<rfloor> \<le> q / s" by (rule of_int_floor_le)
  then have "of_int \<lfloor>q / s\<rfloor> * s \<le> q / s * s"
    using s by (intro mult_right_mono) simp_all
  then show "of_int \<lfloor>q / s\<rfloor> * s \<le> q" using s by simp
  have "q / s < of_int \<lfloor>q / s\<rfloor> + 1" by linarith
  then have "q < (of_int \<lfloor>q / s\<rfloor> + 1) * s" using s by (simp add: pos_divide_less_eq)
  then show "q - of_int \<lfloor>q / s\<rfloor> * s < s" by (simp add: algebra_simps)
next
  assume "symbolInfo_stepSize w symbol = None \<and> symbol \<notin> set object_prototype_names"
  then show "normalizeQuantity w symbol quantity = Inl (SymbolInfoNotFound symbol)"
    by (simp add: normalizeQuantity_def js_get_def)
next
  assume "symbolInfo_stepSize w symbol = None \<and> symbol \<in> set object_prototype_names"
  then show "normalizeQuantity w symbol quantity = Inr BNaN"
    by (cases quantity) (simp_all add: normalizeQuantity_def js_get_def dividedToIntegerBy_def)
qed

section \<open>Properties of the execution\<close>

text \<open>
  \<^verbatim>\<open>executeTrade\<close> raises in every run as well: under release 6 of the library at
  \<^verbatim>\<open>ethers.BigNumber.from(0)\<close>, under release 5 at the \<^verbatim>\<open>ethers.parseUnits\<close> that opens both
  branches (any other action is refused). When it raises it has at most read the clock
  for the deadline: no quote was asked for, nothing was approved and no swap submitted.
\<close>

lemma uniswap_executeTrade_raises:
  "\<exists>e evs. uniswap_executeTrade w cfg n action b q amount sl st
             = (Inl e, st\<lparr>history := history st @ evs\<rparr>)
           \<and> (evs = [] \<or> evs = [ClockRead])"
proof (cases "uniswap_initialized w")
  case False
  then have "uniswap_executeTrade w cfg n action b q amount sl st
      = (Inl NotInitialized, st\<lparr>history := history st @ []\<rparr>)"
    by (simp add: uniswap_executeTrade_def throw_def)
  then show ?thesis by blast
next
  case init: True
  show ?thesis
  proof (cases "getTokenAddress w n b")
    case (Inl e)
    with init have "uniswap_executeTrade w cfg n action b q amount sl st
        = (Inl e, st\<lparr>history := history st @ []\<rparr>)"
      by (simp add: uniswap_executeTrade_def bind_def lift_def)
    then show ?thesis by blast
  next
    case base: (Inr baseTokenAddress)
    show ?thesis
    proof (cases "getTokenAddress w n q")
      case (Inl e)
      with init base have "uniswap_executeTrade w cfg n action b q amount sl st
          = (Inl e, st\<lparr>history := history st @ []\<rparr>)"
        by (simp add: uniswap_executeTrade_def bind_def lift_def)
      then show ?thesis by blast
    next
      case quote: (Inr quoteTokenAddress)
      have "\<exists>e. uniswap_executeTrade w cfg n action b q amount sl st
          = (Inl e, st\<lparr>history := history st @ [ClockRead]\<rparr>)"
        using init base quote
        by (cases "ethers w")
           (simp_all add: uniswap_executeTrade_def swapExactInput_def bind_def lift_def
              throw_def date_now_def call_def ethers_BigNumber_from_def ethers_parseUnits_def)
      then show ?thesis by blast
    qed
  qed
qed

lemma executeArbitrage_dexToCex:
  assumes "direction opp = ''dexToCex''"
  shows "\<exists>evs. executeArbitrage w cfg opp st = (False, st\<lparr>history := history st @ evs\<rparr>)
           \<and> (evs = [] \<or> evs = [ClockRead])"
proof -
  obtain e evs where t: "uniswap_executeTrade w cfg (network opp) ''buy'' (baseToken opp)
      (quoteToken opp) (tradeAmount opp) (maxSlippagePercentage cfg) st
      = (Inl e, st\<lparr>history := history st @ evs\<rparr>)" and evs: "evs = [] \<or> evs = [ClockRead]"
    using uniswap_executeTrade_raises by blast
  from assms t have "executeArbitrage w cfg opp st = (False, st\<lparr>history := history st @ evs\<rparr>)"
    by (simp add: executeArbitrage_def executeArbitrage_try_def Let_def bind_def)
  with evs show ?thesis by blast
qed

lemma executeArbitrage_after_buy:
  assumes "direction opp \<noteq> ''dexToCex''"
    and "normalizeQuantity w (getSymbolFromPair (baseToken opp) (quoteToken opp))
          (tradeAmount opp) = Inr quantity"
    and "executeBuy w (getSymbolFromPair (baseToken opp) (quoteToken opp)) quantity st
          = (Inr orderId, st1)"
  shows "\<exists>e evs. uniswap_executeTrade w cfg (network opp) ''sell'' (baseToken opp)
             (quoteToken opp) (tradeAmount opp) (maxSlippagePercentage cfg) st1
           = (Inl e, st1\<lparr>history := history st1 @ evs\<rparr>)
         \<and> (evs = [] \<or> evs = [ClockRead])
         \<and> executeArbitrage w cfg opp st = (False, st1\<lparr>history := history st1 @ evs\<rparr>)"
proof -
  obtain e evs where t: "uniswap_executeTrade w cfg (network opp) ''sell'' (baseToken opp)
      (quoteToken opp) (tradeAmount opp) (maxSlippagePercentage cfg) st1
      = (Inl e, st1\<lparr>history := history st1 @ evs\<rparr>)" and evs: "evs = [] \<or> evs = [ClockRead]"
    using uniswap_executeTrade_raises by blast
  from assms t have "executeArbitrage w cfg opp st = (False, st1\<lparr>history := history st1 @ evs\<rparr>)"
    by (simp add: executeArbitrage_def executeArbitrage_try_def Let_def bind_def lift_def)
  with t evs show ?thesis by blast
qed

text \<open>
  C3, amended: \<^verbatim>\<open>executeArbitrage\<close> never throws to its caller, every error raised inside
  becomes the result \<^verbatim>\<open>false\<close>. Whenever the first leg succeeds and the second raises,
  the result is \<^verbatim>\<open>false\<close>, a bare boolean without failure stage or first-leg result, and
  the first leg is neither retried nor rolled back: after it the history holds only what
  the one attempt of the second leg records, which is no further Binance order. The first
  leg can succeed in the directions other than \<^verbatim>\<open>dexToCex\<close> only, where it is the
  Binance buy and the second leg, the sale on Uniswap, raises; in the direction
  \<^verbatim>\<open>dexToCex\<close> the first leg is the purchase on Uniswap, which raises itself, and the
  result is \<^verbatim>\<open>false\<close> with no order placed.
\<close>

theorem executeArbitrage_isolates_failures:
  "(executeArbitrage_try w cfg opp st = (Inl e, st') \<longrightarrow>
      executeArbitrage w cfg opp st = (False, st'))
   \<and> (direction opp \<noteq> ''dexToCex''
      \<and> normalizeQuantity w (getSymbolFromPair (baseToken opp) (quoteToken opp))
          (tradeAmount opp) = Inr quantity
      \<and> executeBuy w (getSymbolFromPair (baseToken opp) (quoteToken opp)) quantity st
          = (Inr orderId, st1) \<longrightarrow>
      (\<exists>e2 evs. uniswap_executeTrade w cfg (network opp) ''sell'' (baseToken opp)
             (quoteToken opp) (tradeAmount opp) (maxSlippagePercentage cfg) st1
           = (Inl e2, st1\<lparr>history := history st1 @ evs\<rparr>)
         \<and> (evs = [] \<or> evs = [ClockRead])
         \<and> executeArbitrage w cfg opp st = (False, st1\<lparr>history := history st1 @ evs\<rparr>)))
   \<and> (direction opp = ''dexToCex'' \<longrightarrow>
      (\<exists>evs. executeArbitrage w cfg opp st = (False, st\<lparr>history := history st @ evs\<rparr>)
         \<and> (evs = [] \<or> evs = [ClockRead])))"
proof (intro conjI impI)
  assume "executeArbitrage_try w cfg opp st = (Inl e, st')"
  then show "executeArbitrage w cfg opp st = (False, st')"
    by (simp add: executeArbitrage_def)
next
  assume "direction opp \<noteq> ''dexToCex''
      \<and> normalizeQuantity w (getSymbolFromPair (baseToken opp) (quoteToken opp))
          (tradeAmount opp) = Inr quantity
      \<and> executeBuy w (getSymbolFromPair (baseToken opp) (quoteToken opp)) quantity st
          = (Inr orderId, st1)"
  then show "\<exists>e2 evs. uniswap_executeTrade w cfg (network opp) ''sell'' (baseToken opp)
             (quoteToken opp) (tradeAmount opp) (maxSlippagePercentage cfg) st1
           = (Inl e2, st1\<lparr>history := history st1 @ evs\<rparr>)
         \<and> (evs = [] \<or> evs = [ClockRead])
         \<and> executeArbitrage w cfg opp st = (False, st1\<lparr>history := history st1 @ evs\<rparr>)"
    using executeArbitrage_after_buy by blast
next
  assume "direction opp = ''dexToCex''"
  then show "\<exists>evs. executeArbitrage w cfg opp st = (False, st\<lparr>history := history st @ evs\<rparr>)
         \<and> (evs = [] \<or> evs = [ClockRead])"
    by (rule executeArbitrage_dexToCex)
qed


section \<open>The example world, evaluated\<close>

lemma ex_tokens:
  "getTokenAddress w ''optimism'' ''WETH'' = Inr ''0x4200000000000000000000000000000000000006''"
  "getTokenAddress w ''optimism'' ''USDT'' = Inr ''0x94b008aA00579c1307B0EF2c499aD98a8ce58e58''"
  "getTokenDecimals ''WETH'' = Some 18" "getTokenDecimals ''USDT'' = Some 6"
  by (simp_all add: getTokenAddress_def token_table_def getTokenDecimals_def js_get_def)

lemma ex_opportunity_fields:
  "direction (example_opportunity d) = d" "network (example_opportunity d) = ''optimism''"
  "baseToken (example_opportunity d) = ''WETH''" "quoteToken (example_opportunity d) = ''USDT''"
  "tradeAmount (example_opportunity d) = BFin 1"
  by (simp_all add: example_opportunity_def calculateProfit_def Let_def)

lemma ex_symbol: "getSymbolFromPair ''WETH'' ''USDT'' = ''WETHUSDT''"
  by (simp add: getSymbolFromPair_def toUpperCase_def)

lemma ex_config:
  "gasLimit example_config = 500000"
  "maxSlippagePercentage example_config = JFin (1 / 2)"
  "uniswapV3Router example_config = ''0xE592427A0AEce92De3Edee1F18E0157C05861564''"
  "minimumProfitPercentage example_config = JFin (1 / 2)"
  "tradingPairs example_config = [(''WETH'', ''USDT'')]"
  "networks example_config = [(''ethereum'', False), (''optimism'', True)]"
  by (simp_all add: example_config_def)

lemma ex_world:
  "ethers (example_world_of r oa) = r"
  "clock (example_world_of r oa) h = length h"
  "uniswap_initialized (example_world_of r oa) = True"
  "quoteExactInputSingle (example_world_of r oa) h n tin tout 3000 a = Inr 100500000"
  "client_order (example_world_of r oa) h side sy qy = oa"
  "symbolInfo_stepSize (example_world_of r oa) ''WETHUSDT'' = Some (BFin (1 / 10000))"
  "symbolInfo_stepSize (example_world_of r oa) ''DOGEUSDT'' = None"
  "symbolInfo_stepSize (example_world_of r oa) ''toString'' = None"
  "binance_prices (example_world_of r oa) h ''WETHUSDT''
     = Some \<lparr> ticker_bid = Some (BFin 100), ticker_ask = Some (BFin 100) \<rparr>"
  by (simp_all add: example_world_of_def)

lemma ex_initial_state:
  "history initial_state = []" "cache initial_state k = None"
  by (simp_all add: initial_state_def)

lemma ex_cached_state:
  "history (cached_state e) = []"
  "cache (cached_state e) (cacheKey ''optimism'' ''WETH'' ''USDT'') = Some (201 / 2, e)"
  by (simp_all add: cached_state_def initial_state_def)

text \<open>
  The sale of one WETH on Uniswap in the example world, under either release of the
  library: the deadline is read from the clock and the call raises.
\<close>

lemma ex_executeTrade_ethers6:
  "uniswap_executeTrade (example_world_of Ethers6 oa) example_config ''optimism'' action
       ''WETH'' ''USDT'' amount sl st
     = (Inl (TypeError ''Cannot read properties of undefined (reading from)''),
        st\<lparr>history := history st @ [ClockRead]\<rparr>)"
  by (simp add: uniswap_executeTrade_def bind_def lift_def date_now_def call_def ex_tokens
      ex_world ethers_BigNumber_from_def)

lemma ex_executeTrade_ethers5:
  "uniswap_executeTrade (example_world_of Ethers5 oa) example_config ''optimism'' ''sell''
       ''WETH'' ''USDT'' amount sl st
     = (Inl (TypeError ''ethers.parseUnits is not a function''),
        st\<lparr>history := history st @ [ClockRead]\<rparr>)"
  by (simp add: uniswap_executeTrade_def swapExactInput_def bind_def lift_def date_now_def
      call_def ex_tokens ex_world ethers_BigNumber_from_def ethers_parseUnits_def)

text \<open>
  The floor of a product of doubles: the double nearest to 1.15, times 100, is the double
  below 115.
\<close>

lemma ex_floor_times:
  "floor_times (JFin (1 / 2)) 10 = Inr 5"
  "floor_times (round_double (11 / 10)) 100 = Inr 110"
  "floor_times (round_double (23 / 20)) 100 = Inr 114"
  by code_simp+

lemma ex_normalizeQuantity:
  "normalizeQuantity (example_world_of r oa) ''WETHUSDT'' (BFin 1) = Inr (BFin 1)"
  by (simp add: normalizeQuantity_def js_get_def dividedToIntegerBy_def round_down_def ex_world)

lemma ex_executeBuy:
  "executeBuy (example_world_of r oa) ''WETHUSDT'' (BFin 1) st
     = (oa, st\<lparr>history := history st @ [OrderCall ''BUY'' ''WETHUSDT'' (BFin 1)]\<rparr>)"
  by (simp add: executeBuy_def call_def ex_world)

lemma ex_executeArbitrage_cexToDex:
  "executeArbitrage (example_world_of Ethers6 oa) example_config
       (example_opportunity ''cexToDex'') initial_state
     = (False,
        initial_state\<lparr>history :=
          (case oa of Inl e \<Rightarrow> [OrderCall ''BUY'' ''WETHUSDT'' (BFin 1)]
           | Inr orderId \<Rightarrow> [OrderCall ''BUY'' ''WETHUSDT'' (BFin 1), ClockRead])\<rparr>)"
  by (cases oa)
     (simp_all add: executeArbitrage_def executeArbitrage_try_def Let_def bind_def lift_def
        ex_opportunity_fields ex_symbol ex_config ex_normalizeQuantity ex_executeBuy
        ex_executeTrade_ethers6 ex_initial_state)


text \<open>
  C3, as stated: when the first leg succeeds and the second raises, the outcome names the
  second leg as the stage of the failure and carries the result of the first. The
  function returns a boolean. In the direction \<^verbatim>\<open>cexToDex\<close> of the example, Binance fills
  the buy order (its answer is the order 1) and the sale on Uniswap raises: the result is
  \<^verbatim>\<open>false\<close>. When Binance rejects the buy order, so that the first leg fails and the
  second is not attempted, the result is the same \<^verbatim>\<open>false\<close>.
\<close>

theorem executeArbitrage_outcome_counterexample:
  "client_order example_world [] ''BUY'' ''WETHUSDT'' (BFin 1) = Inr 1
   \<and> executeArbitrage example_world example_config (example_opportunity ''cexToDex'')
       initial_state
     = (False, initial_state\<lparr>history := [OrderCall ''BUY'' ''WETHUSDT'' (BFin 1), ClockRead]\<rparr>)
   \<and> client_order rejecting_binance_world [] ''BUY'' ''WETHUSDT'' (BFin 1)
     = Inl (Rejected ''insufficient balance'')
   \<and> executeArbitrage rejecting_binance_world example_config (example_opportunity ''cexToDex'')
       initial_state
     = (False, initial_state\<lparr>history := [OrderCall ''BUY'' ''WETHUSDT'' (BFin 1)]\<rparr>)"
  by (simp add: example_world_def rejecting_binance_world_def ex_world
      ex_executeArbitrage_cexToDex)

text \<open>
  The amended claim C3 at the example: a caught error (Binance rejects the buy order); a
  first leg that succeeds, after which the sale on Uniswap raises and the history holds
  the buy order and the reading of the clock for the deadline, nothing else; and the
  direction \<^verbatim>\<open>dexToCex\<close>, in which the purchase on Uniswap raises and no order is placed.
\<close>

theorem executeArbitrage_isolates_failures_witness:
  "executeArbitrage_try rejecting_binance_world example_config
       (example_opportunity ''cexToDex'') initial_state
     = (Inl (Rejected ''insufficient balance''),
        initial_state\<lparr>history := [OrderCall ''BUY'' ''WETHUSDT'' (BFin 1)]\<rparr>)
   \<and> executeArbitrage rejecting_binance_world example_config
       (example_opportunity ''cexToDex'') initial_state
     = (False, initial_state\<lparr>history := [OrderCall ''BUY'' ''WETHUSDT'' (BFin 1)]\<rparr>)
   \<and> executeBuy example_world ''WETHUSDT'' (BFin 1) initial_state
     = (Inr 1, initial_state\<lparr>history := [OrderCall ''BUY'' ''WETHUSDT'' (BFin 1)]\<rparr>)
   \<and> (\<exists>e2 evs. uniswap_executeTrade example_world example_config ''optimism'' ''sell'' ''WETH''
          ''USDT'' (BFin 1) (JFin (1 / 2))
          (initial_state\<lparr>history := [OrderCall ''BUY'' ''WETHUSDT'' (BFin 1)]\<rparr>)
        = (Inl e2, initial_state\<lparr>history := [OrderCall ''BUY'' ''WETHUSDT'' (BFin 1)] @ evs\<rparr>)
        \<and> (evs = [] \<or> evs = [ClockRead])
        \<and> executeArbitrage example_world example_config (example_opportunity ''cexToDex'')
            initial_state
          = (False, initial_state\<lparr>history := [OrderCall ''BUY'' ''WETHUSDT'' (BFin 1)] @ evs\<rparr>))
   \<and> (\<exists>evs. executeArbitrage example_world example_config (example_opportunity ''dexToCex'')
            initial_state
          = (False, initial_state\<lparr>history := evs\<rparr>)
        \<and> (evs = [] \<or> evs = [ClockRead]))"
proof -
  let ?bought = "initial_state\<lparr>history := [OrderCall ''BUY'' ''WETHUSDT'' (BFin 1)]\<rparr>"
  have caught: "executeArbitrage_try rejecting_binance_world example_config
       (example_opportunity ''cexToDex'') initial_state
     = (Inl (Rejected ''insufficient balance''), ?bought)"
    by (simp add: rejecting_binance_world_def executeArbitrage_try_def Let_def bind_def lift_def
        ex_opportunity_fields ex_symbol ex_normalizeQuantity ex_executeBuy ex_initial_state)
  from caught executeArbitrage_isolates_failures
    [where w = rejecting_binance_world and cfg = example_config
       and opp = "example_opportunity ''cexToDex''" and st = initial_state
       and e = "Rejected ''insufficient balance''" and st' = ?bought]
  have 1: "executeArbitrage rejecting_binance_world example_config
       (example_opportunity ''cexToDex'') initial_state = (False, ?bought)"
    by blast
  have dir: "direction (example_opportunity ''cexToDex'') \<noteq> ''dexToCex''"
    by (simp add: ex_opportunity_fields)
  have norm: "normalizeQuantity example_world
      (getSymbolFromPair (baseToken (example_opportunity ''cexToDex''))
         (quoteToken (example_opportunity ''cexToDex'')))
      (tradeAmount (example_opportunity ''cexToDex'')) = Inr (BFin 1)"
    by (simp add: example_world_def ex_opportunity_fields ex_symbol ex_normalizeQuantity)
  have buy: "executeBuy example_world
      (getSymbolFromPair (baseToken (example_opportunity ''cexToDex''))
         (quoteToken (example_opportunity ''cexToDex''))) (BFin 1) initial_state
      = (Inr 1, ?bought)"
    by (simp add: example_world_def ex_opportunity_fields ex_symbol ex_executeBuy
        ex_initial_state)
  from dir norm buy executeArbitrage_isolates_failures
    [where w = example_world and cfg = example_config
       and opp = "example_opportunity ''cexToDex''" and st = initial_state
       and quantity = "BFin 1" and orderId = 1 and ?st1.0 = ?bought]
  have 2: "\<exists>e2 evs. uniswap_executeTrade example_world example_config ''optimism'' ''sell''
          ''WETH'' ''USDT'' (BFin 1) (JFin (1 / 2)) ?bought
        = (Inl e2, initial_state\<lparr>history := [OrderCall ''BUY'' ''WETHUSDT'' (BFin 1)] @ evs\<rparr>)
        \<and> (evs = [] \<or> evs = [ClockRead])
        \<and> executeArbitrage example_world example_config (example_opportunity ''cexToDex'')
            initial_state
          = (False, initial_state\<lparr>history := [OrderCall ''BUY'' ''WETHUSDT'' (BFin 1)] @ evs\<rparr>)"
    by (simp add: ex_opportunity_fields ex_config)
  from executeArbitrage_isolates_failures
    [where w = example_world and cfg = example_config
       and opp = "example_opportunity ''dexToCex''" and st = initial_state]
  have 3: "\<exists>evs. executeArbitrage example_world example_config
        (example_opportunity ''dexToCex'') initial_state
          = (False, initial_state\<lparr>history := evs\<rparr>)
        \<and> (evs = [] \<or> evs = [ClockRead])"
    by (simp add: ex_opportunity_fields ex_initial_state)
  from buy have buy': "executeBuy example_world ''WETHUSDT'' (BFin 1) initial_state
     = (Inr 1, ?bought)"
    by (simp add: ex_opportunity_fields ex_symbol)
  from caught 1 buy' 2 3 show ?thesis by blast
qed


text \<open>
  The lookup (C9) at the example, in which the pool would quote 100.5: with the quote in
  the cache and not expired it is returned; with the quote expired it is deleted and the
  result is \<^verbatim>\<open>null\<close>; with an empty cache the result is \<^verbatim>\<open>null\<close> under either release of
  the library, and the cache stays empty.
\<close>

theorem getDexPrice_returns_cached_or_null_witness:
  "getDexPrice example_world example_config ''optimism'' ''WETH'' ''USDT'' warm_state
     = (Some (201 / 2), warm_state\<lparr>history := [ClockRead]\<rparr>)
   \<and> getDexPrice example_world example_config ''optimism'' ''WETH'' ''USDT'' stale_state
     = (None, stale_state\<lparr>history := [ClockRead, ClockRead, ClockRead],
          cache := (cache stale_state)(cacheKey ''optimism'' ''WETH'' ''USDT'' := None)\<rparr>)
   \<and> quoteExactInputSingle example_world [] ''optimism''
        ''0x4200000000000000000000000000000000000006''
        ''0x94b008aA00579c1307B0EF2c499aD98a8ce58e58'' 3000 (10 ^ 18) = Inr 100500000
   \<and> getDexPrice example_world example_config ''optimism'' ''WETH'' ''USDT'' initial_state
     = (None, initial_state)
   \<and> getDexPrice ethers5_world example_config ''optimism'' ''WETH'' ''USDT'' initial_state
     = (None, initial_state)"
proof -
  have hit: "cache warm_state (cacheKey ''optimism'' ''WETH'' ''USDT'') = Some (201 / 2, 60000)
      \<and> \<not> (60000 \<noteq> (0::nat) \<and> 60000 < clock example_world (history warm_state))"
    by (simp add: warm_state_def ex_cached_state example_world_def ex_world)
  from hit getDexPrice_returns_cached_or_null
    [where w = example_world and cfg = example_config and n = "''optimism''"
       and b = "''WETH''" and q = "''USDT''" and st = warm_state and v = "201 / 2"
       and expiry = 60000]
  have 1: "getDexPrice example_world example_config ''optimism'' ''WETH'' ''USDT'' warm_state
     = (Some (201 / 2), warm_state\<lparr>history := [ClockRead]\<rparr>)"
    by (simp add: warm_state_def ex_cached_state)
  have old: "cache stale_state (cacheKey ''optimism'' ''WETH'' ''USDT'') = Some (201 / 2, 1)
      \<and> 1 \<noteq> (0::nat) \<and> 1 < clock example_world (history stale_state)"
    by (simp add: stale_state_def ex_cached_state example_world_def ex_world)
  from old getDexPrice_returns_cached_or_null
    [where w = example_world and cfg = example_config and n = "''optimism''"
       and b = "''WETH''" and q = "''USDT''" and st = stale_state and v = "201 / 2"
       and expiry = 1]
  have 2: "getDexPrice example_world example_config ''optimism'' ''WETH'' ''USDT'' stale_state
     = (None, stale_state\<lparr>history := [ClockRead, ClockRead, ClockRead],
          cache := (cache stale_state)(cacheKey ''optimism'' ''WETH'' ''USDT'' := None)\<rparr>)"
    by (simp add: stale_state_def)
  have miss: "cache initial_state (cacheKey ''optimism'' ''WETH'' ''USDT'') = None"
    by (simp add: ex_initial_state)
  from miss getDexPrice_returns_cached_or_null
    [where w = example_world and cfg = example_config and n = "''optimism''"
       and b = "''WETH''" and q = "''USDT''" and st = initial_state]
  have 3: "getDexPrice example_world example_config ''optimism'' ''WETH'' ''USDT'' initial_state
     = (None, initial_state)"
    by blast
  from miss getDexPrice_returns_cached_or_null
    [where w = ethers5_world and cfg = example_config and n = "''optimism''"
       and b = "''WETH''" and q = "''USDT''" and st = initial_state]
  have 4: "getDexPrice ethers5_world example_config ''optimism'' ''WETH'' ''USDT'' initial_state
     = (None, initial_state)"
    by blast
  have 5: "quoteExactInputSingle example_world [] ''optimism''
        ''0x4200000000000000000000000000000000000006''
        ''0x94b008aA00579c1307B0EF2c499aD98a8ce58e58'' 3000 (10 ^ 18) = Inr 100500000"
    by (simp only: example_world_def ex_world)
  from 1 2 3 4 5 show ?thesis by blast
qed

text \<open>
  C10, as stated, covers every loaded symbol and raises for every symbol that was not
  loaded. A symbol whose step size is reported as \<^verbatim>\<open>0.00000000\<close> makes the division return
  \<^verbatim>\<open>Infinity\<close> and the product \<^verbatim>\<open>NaN\<close>; and for the symbol \<^verbatim>\<open>toString\<close>, which was not
  loaded, the lookup in the table finds the inherited function, and the result is \<^verbatim>\<open>NaN\<close>
  instead of the error.
\<close>

theorem normalizeQuantity_zero_step_counterexample:
  "symbolInfo_stepSize zero_step_world ''WETHUSDT'' = Some (BFin 0)
   \<and> normalizeQuantity zero_step_world ''WETHUSDT'' (BFin 1) = Inr BNaN
   \<and> symbolInfo_stepSize example_world ''toString'' = None
   \<and> normalizeQuantity example_world ''toString'' (BFin 1) = Inr BNaN"
  by (simp add: zero_step_world_def example_world_def ex_world normalizeQuantity_def js_get_def
      dividedToIntegerBy_def object_prototype_names_def)

theorem normalizeQuantity_rounds_down_to_step_witness:
  "normalizeQuantity example_world ''WETHUSDT'' (BFin (123456 / 100000))
     = Inr (BFin (12345 / 10000))
   \<and> (12345 / 10000 :: rat) \<le> 123456 / 100000
   \<and> (123456 / 100000 - 12345 / 10000 :: rat) < 1 / 10000
   \<and> normalizeQuantity example_world ''DOGEUSDT'' (BFin 1)
     = Inl (SymbolInfoNotFound ''DOGEUSDT'')
   \<and> normalizeQuantity example_world ''valueOf'' (BFin 1) = Inr BNaN"
proof -
  have a: "symbolInfo_stepSize example_world ''WETHUSDT'' = Some (BFin (1 / 10000))
      \<and> (0::rat) < 1 / 10000 \<and> (0::rat) < 123456 / 100000"
    by (simp add: example_world_def ex_world)
  have b: "symbolInfo_stepSize example_world ''DOGEUSDT'' = None
      \<and> ''DOGEUSDT'' \<notin> set object_prototype_names"
    by (simp add: example_world_def ex_world object_prototype_names_def)
  have c: "symbolInfo_stepSize example_world ''valueOf'' = None
      \<and> ''valueOf'' \<in> set object_prototype_names"
    by (simp add: example_world_def example_world_of_def object_prototype_names_def)
  have f: "\<lfloor>(123456 / 100000 :: rat) / (1 / 10000)\<rfloor> = 12345"
    by (simp add: floor_eq_iff)
  from a normalizeQuantity_rounds_down_to_step
    [where w = example_world and symbol = "''WETHUSDT''" and s = "1 / 10000"
       and q = "123456 / 100000"]
  have "normalizeQuantity example_world ''WETHUSDT'' (BFin (123456 / 100000))
      = Inr (BFin (of_int \<lfloor>(123456 / 100000 :: rat) / (1 / 10000)\<rfloor> * (1 / 10000)))
    \<and> of_int \<lfloor>(123456 / 100000 :: rat) / (1 / 10000)\<rfloor> * (1 / 10000) \<le> (123456 / 100000 :: rat)
    \<and> (123456 / 100000 :: rat) - of_int \<lfloor>(123456 / 100000 :: rat) / (1 / 10000)\<rfloor> * (1 / 10000)
        < 1 / 10000"
    by blast
  moreover from b normalizeQuantity_rounds_down_to_step
    [where w = example_world and symbol = "''DOGEUSDT''" and quantity = "BFin 1"]
  have "normalizeQuantity example_world ''DOGEUSDT'' (BFin 1)
      = Inl (SymbolInfoNotFound ''DOGEUSDT'')"
    by blast
  moreover from c normalizeQuantity_rounds_down_to_step
    [where w = example_world and symbol = "''valueOf''" and quantity = "BFin 1"]
  have "normalizeQuantity example_world ''valueOf'' (BFin 1) = Inr BNaN"
    by blast
  ultimately show ?thesis unfolding f by simp
qed

lemma calculateProfit_percentage_clock:
  "profitPercentage (calculateProfit t d n b q bp sp)
     = profitPercentage (calculateProfit 0 d n b q bp sp)"
  by (simp add: calculateProfit_def Let_def)

lemma ex_percentage_cexToDex:
  "profitPercentage (calculateProfit t ''cexToDex'' ''optimism'' ''WETH'' ''USDT''
       (BFin 100) (BFin (201 / 2))) = JFin (7025545163246341 / 72057594037927936)"
proof -
  have "profitPercentage (calculateProfit 0 ''cexToDex'' ''optimism'' ''WETH'' ''USDT''
       (BFin 100) (BFin (201 / 2))) = JFin (7025545163246341 / 72057594037927936)"
    by code_simp
  then show ?thesis by (simp only: calculateProfit_percentage_clock[of t])
qed

lemma ex_percentage_dexToCex:
  "js_gt (profitPercentage (calculateProfit t ''dexToCex'' ''optimism'' ''WETH'' ''USDT''
       (BFin (201 / 2)) (BFin 100))) (JFin 0) = False"
proof -
  have "js_gt (profitPercentage (calculateProfit 0 ''dexToCex'' ''optimism'' ''WETH'' ''USDT''
       (BFin (201 / 2)) (BFin 100))) (JFin 0) = False"
    by code_simp
  then show ?thesis by (simp only: calculateProfit_percentage_clock[of t])
qed

lemma ex_getDexPrice_warm:
  "getDexPrice example_world example_config ''optimism'' ''WETH'' ''USDT'' warm_state
     = (Some (201 / 2), warm_state\<lparr>history := [ClockRead]\<rparr>)"
  by (simp add: getDexPrice_def getDexPrice_body_def cache_get_def read_clock_def
      warm_state_def ex_cached_state example_world_def ex_world)

text \<open>
  C2, as stated: a result is retained exactly when its percentage exceeds the configured
  minimum. With an ask of 100, a cached Uniswap quote of 100.5 and the minimum at 0.5, the
  scan returns, and stores in the ledger, the \<^verbatim>\<open>cexToDex\<close> result, whose percentage is
  about 0.0975.
\<close>

theorem scan_retains_below_threshold_counterexample:
  "fst (findArbitrageOpportunities example_world example_config warm_state)
     = [calculateProfit 2 ''cexToDex'' ''optimism'' ''WETH'' ''USDT'' (BFin 100) (BFin (201 / 2))]
   \<and> opportunities (snd (findArbitrageOpportunities example_world example_config warm_state))
     = [calculateProfit 2 ''cexToDex'' ''optimism'' ''WETH'' ''USDT'' (BFin 100) (BFin (201 / 2))]
   \<and> \<not> js_gt (profitPercentage (calculateProfit 2 ''cexToDex'' ''optimism'' ''WETH'' ''USDT''
           (BFin 100) (BFin (201 / 2)))) (minimumProfitPercentage example_config)"
proof -
  have bid: "getBestBid example_world (history warm_state) ''WETHUSDT'' = Some (BFin 100)"
    and ask: "getBestAsk example_world (history warm_state) ''WETHUSDT'' = Some (BFin 100)"
    by (simp_all add: getBestBid_def getBestAsk_def example_world_def ex_world)
  have scan: "fst (scanPairs example_world example_config (tradingPairs example_config) []
      warm_state)
     = [calculateProfit 2 ''cexToDex'' ''optimism'' ''WETH'' ''USDT'' (BFin 100) (BFin (201 / 2))]"
    by (simp add: ex_config ex_symbol bid ask ex_getDexPrice_warm read_clock_def Let_def
        ex_percentage_cexToDex ex_percentage_dexToCex)
       (simp add: example_world_def ex_world numeral_2_eq_2)
  have res: "fst (findArbitrageOpportunities example_world example_config warm_state)
     = [calculateProfit 2 ''cexToDex'' ''optimism'' ''WETH'' ''USDT'' (BFin 100) (BFin (201 / 2))]"
  proof -
    from scan obtain st' where "scanPairs example_world example_config
        (tradingPairs example_config) [] warm_state
      = ([calculateProfit 2 ''cexToDex'' ''optimism'' ''WETH'' ''USDT'' (BFin 100)
            (BFin (201 / 2))], st')"
      by (metis prod.collapse)
    then show ?thesis by (simp add: findArbitrageOpportunities_def js_sort_def)
  qed
  moreover have "opportunities (snd (findArbitrageOpportunities example_world example_config
      warm_state)) = fst (findArbitrageOpportunities example_world example_config warm_state)"
    by (simp add: findArbitrageOpportunities_def split: prod.splits)
  moreover have "\<not> js_gt (profitPercentage (calculateProfit 2 ''cexToDex'' ''optimism'' ''WETH''
      ''USDT'' (BFin 100) (BFin (201 / 2)))) (minimumProfitPercentage example_config)"
    by (simp add: ex_percentage_cexToDex ex_config)
  ultimately show ?thesis by simp
qed

end
